theory Spec2Isabelle
  imports Main
begin

section \<open>JavaScript values of the api-resource library\<close>

text \<open>
  Payload data (request bodies, response data, parameter specifications) are immutable
  trees. Objects whose identity matters to the library (resource instances, the arrays of
  resources, the response objects of the transport) live in a store and are denoted by
  \<open>JRef\<close>. Numbers are integers. \<open>JFun r\<close> is a function of no argument returning
  \<open>r\<close>, the producer functions of a parameter specification. \<open>JPromise n\<close> is the
  promise object number \<open>n\<close>. The keys of a \<open>JObj\<close> are in insertion order.
\<close>

datatype jsval =
    JUndefined
  | JNull
  | JBool bool
  | JNum int
  | JStr string
  | JObj "(string \<times> jsval) list"
  | JArr "jsval list"
  | JFun jsval
  | JRef nat
  | JPromise nat

type_synonym props = "(string \<times> jsval) list"

text \<open>A stored object: the elements when it is an array, and its own named properties.\<close>

record hobj =
  items :: "jsval list option"
  own :: props

type_synonym heap = "hobj list"

definition read_obj :: "heap \<Rightarrow> nat \<Rightarrow> hobj option" where
  "read_obj h a = (if a < length h then Some (h ! a) else None)"

subsection \<open>Errors, promises, interceptors and the transport\<close>

datatype error =
    MissingBodyError string string
  | ExpectedArrayError string
  | ExpectedTypeError string string
  | UnresolvedRequest string
  | ConfigError string
  | TypeError

datatype reason = Thrown error | Reason jsval

datatype outcome = Fulfilled jsval | Rejected reason

text \<open>What the collaborators of the library were asked to do, in order.\<close>

datatype event =
    TransportCall jsval
  | RequestHandler nat
  | RequestErrorHandler nat
  | ResponseHandler nat
  | ResponseErrorHandler nat
  | PostProcess

record state =
  heap :: heap
  pcount :: nat
  trace :: "event list"

text \<open>
  A promise is what settling it does: from the state at that moment, the state its
  callbacks leave and the value or the reason it settles with. A callback of a
  collaborator reads and writes the store only, and either returns (also a promise that
  fulfils) or throws (also a promise that rejects).
\<close>

type_synonym promise = "state \<Rightarrow> state \<times> outcome"

type_synonym handler = "jsval \<Rightarrow> heap \<Rightarrow> heap \<times> outcome"

type_synonym rhandler = "reason \<Rightarrow> heap \<Rightarrow> heap \<times> outcome"

record interceptor =
  request :: "handler option"
  requestError :: "rhandler option"
  response :: "handler option"
  responseError :: "rhandler option"

text \<open>
  An action definition, with the types its documentation gives; a property that is not
  there is \<open>None\<close>. The field \<open>http_method\<close> is the property \<open>method\<close>.
\<close>

record action =
  http_method :: "string option"
  subRoute :: "string option"
  isArray :: "bool option"
  ignoreResponse :: "bool option"
  params :: "jsval option"
  queryParams :: "jsval option"
  hasData :: "bool option"
  postProcess :: "handler option"
  skipOnMissingParams :: "bool option"

text \<open>
  The collaborators: \<open>$http\<close>, which fulfils with a response object of the store or
  rejects, the interceptors the provider instantiated, the defaults per action name and
  the base url. Three parts of the language are parameters as well: the conversion of a
  value that is not a string to a string, \<open>String.prototype.replace\<close> with a string
  pattern, and \<open>inherited\<close>, what \<open>obj[key]\<close> gives when \<open>obj\<close> has no own property
  \<open>key\<close>: the property of that name on the prototype chain of \<open>obj\<close> (the
  \<open>constructor\<close> or \<open>toString\<close> of every object, the methods of arrays and strings),
  undefined when there is none.
\<close>

record env =
  http :: "jsval \<Rightarrow> heap \<Rightarrow> heap \<times> (reason + nat)"
  instancedInterceptors :: "interceptor list"
  actionsDefaults :: "string \<Rightarrow> action option"
  baseUrl :: string
  js_to_string :: "jsval \<Rightarrow> string"
  js_replace :: "string \<Rightarrow> string \<Rightarrow> jsval \<Rightarrow> string"
  inherited :: "heap \<Rightarrow> jsval \<Rightarrow> string \<Rightarrow> jsval"

subsection \<open>Predicates of angular\<close>

definition isUndefined :: "jsval \<Rightarrow> bool" where
  "isUndefined v = (v = JUndefined)"

definition isDefined :: "jsval \<Rightarrow> bool" where
  "isDefined v = (v \<noteq> JUndefined)"

fun isObject :: "jsval \<Rightarrow> bool" where
  "isObject (JObj _) = True"
| "isObject (JArr _) = True"
| "isObject (JRef _) = True"
| "isObject (JPromise _) = True"
| "isObject _ = False"

fun isString :: "jsval \<Rightarrow> bool" where
  "isString (JStr _) = True"
| "isString _ = False"

fun isFunction :: "jsval \<Rightarrow> bool" where
  "isFunction (JFun _) = True"
| "isFunction _ = False"

fun array_items :: "heap \<Rightarrow> jsval \<Rightarrow> jsval list option" where
  "array_items h (JArr xs) = Some xs"
| "array_items h (JRef a) = (case read_obj h a of Some ob \<Rightarrow> items ob | None \<Rightarrow> None)"
| "array_items h _ = None"

definition is_array :: "heap \<Rightarrow> jsval \<Rightarrow> bool" where
  "is_array h v = (array_items h v \<noteq> None)"

text \<open>Truthiness, as \<open>if (v)\<close>, \<open>v && w\<close> and \<open>v || w\<close> test it.\<close>

fun truthy :: "jsval \<Rightarrow> bool" where
  "truthy JUndefined = False"
| "truthy JNull = False"
| "truthy (JBool b) = b"
| "truthy (JNum n) = (n \<noteq> 0)"
| "truthy (JStr s) = (s \<noteq> [])"
| "truthy _ = True"

subsection \<open>Decimal index keys\<close>

definition is_digit :: "char \<Rightarrow> bool" where
  "is_digit c = (c \<in> set ''0123456789'')"

text \<open>The value of a digit is its place among the digits.\<close>

definition digit_val :: "char \<Rightarrow> nat" where
  "digit_val c = length (takeWhile (\<lambda>d. d \<noteq> c) ''0123456789'')"

definition dec_val :: "string \<Rightarrow> nat" where
  "dec_val s = foldl (\<lambda>n c. 10 * n + digit_val c) 0 s"

text \<open>
  A property key is an array index when it is the decimal writing of a number, with no
  leading zero: \<open>xs["02"]\<close> is not \<open>xs[2]\<close>.
\<close>

definition index_key :: "string \<Rightarrow> nat option" where
  "index_key k =
     (if k \<noteq> [] \<and> list_all is_digit k \<and> (hd k \<noteq> CHR ''0'' \<or> length k = 1)
      then Some (dec_val k) else None)"

definition digit_char :: "nat \<Rightarrow> char" where
  "digit_char d = ''0123456789'' ! d"

fun show_nat :: "nat \<Rightarrow> string" where
  "show_nat n = (if n < 10 then [digit_char n] else show_nat (n div 10) @ [digit_char (n mod 10)])"

declare show_nat.simps [simp del]

definition index_entries :: "jsval list \<Rightarrow> props" where
  "index_entries xs = map (\<lambda>i. (show_nat i, xs ! i)) [0..<length xs]"

text \<open>\<open>xs[k]\<close> on the elements of an array: the element, or undefined out of range.\<close>

definition elem_at :: "jsval list \<Rightarrow> string \<Rightarrow> jsval" where
  "elem_at xs k =
     (case index_key k of
        Some i \<Rightarrow> if i < length xs then xs ! i else JUndefined
      | None \<Rightarrow> JUndefined)"

subsection \<open>Own properties\<close>

definition lookup_prop :: "props \<Rightarrow> string \<Rightarrow> jsval" where
  "lookup_prop ps k = (case map_of ps k of Some v \<Rightarrow> v | None \<Rightarrow> JUndefined)"

definition hasOwnProperty :: "props \<Rightarrow> string \<Rightarrow> bool" where
  "hasOwnProperty ps k = (map_of ps k \<noteq> None)"

text \<open>\<open>obj[k] = v\<close>: an existing key keeps its place, a new key comes last.\<close>

fun set_prop :: "string \<Rightarrow> jsval \<Rightarrow> props \<Rightarrow> props" where
  "set_prop k v [] = [(k, v)]"
| "set_prop k v ((k', v') # ps) =
     (if k = k' then (k, v) # ps else (k', v') # set_prop k v ps)"

definition delete_prop :: "string \<Rightarrow> props \<Rightarrow> props" where
  "delete_prop k ps = filter (\<lambda>kv. fst kv \<noteq> k) ps"

text \<open>
  The own property \<open>k\<close> of a value that is neither undefined nor null: a named
  property, an element or the length of an array or of a string. The library reads this
  way the properties it has set itself (\<open>$$unresolved\<close>, the \<open>data\<close> of a response,
  the elements of its arrays), which no prototype holds.
\<close>

fun get_prop :: "heap \<Rightarrow> jsval \<Rightarrow> string \<Rightarrow> jsval" where
  "get_prop h (JObj ps) k = lookup_prop ps k"
| "get_prop h (JArr xs) k =
     (if k = ''length'' then JNum (int (length xs)) else elem_at xs k)"
| "get_prop h (JStr s) k =
     (if k = ''length'' then JNum (int (length s))
      else case index_key k of
             Some i \<Rightarrow> if i < length s then JStr [s ! i] else JUndefined
           | None \<Rightarrow> JUndefined)"
| "get_prop h (JRef a) k =
     (case read_obj h a of
        None \<Rightarrow> JUndefined
      | Some ob \<Rightarrow>
          (case items ob of
             None \<Rightarrow> lookup_prop (own ob) k
           | Some xs \<Rightarrow>
               if k = ''length'' then JNum (int (length xs))
               else if index_key k \<noteq> None then elem_at xs k
               else lookup_prop (own ob) k))"
| "get_prop h _ k = JUndefined"

text \<open>Whether a value has the own property \<open>k\<close>.\<close>

fun has_prop :: "heap \<Rightarrow> jsval \<Rightarrow> string \<Rightarrow> bool" where
  "has_prop h (JObj ps) k = hasOwnProperty ps k"
| "has_prop h (JArr xs) k =
     (k = ''length'' \<or> (case index_key k of Some i \<Rightarrow> i < length xs | None \<Rightarrow> False))"
| "has_prop h (JStr s) k =
     (k = ''length'' \<or> (case index_key k of Some i \<Rightarrow> i < length s | None \<Rightarrow> False))"
| "has_prop h (JRef a) k =
     (case read_obj h a of
        None \<Rightarrow> False
      | Some ob \<Rightarrow>
          (case items ob of
             None \<Rightarrow> hasOwnProperty (own ob) k
           | Some xs \<Rightarrow>
               k = ''length''
               \<or> (case index_key k of Some i \<Rightarrow> i < length xs
                                       | None \<Rightarrow> hasOwnProperty (own ob) k)))"
| "has_prop h _ k = False"

text \<open>
  \<open>obj[k]\<close> on a value that is neither undefined nor null, for a key the caller
  chose: the own property when there is one, the inherited one otherwise.
\<close>

definition js_get :: "env \<Rightarrow> heap \<Rightarrow> jsval \<Rightarrow> string \<Rightarrow> jsval" where
  "js_get e h obj k = (if has_prop h obj k then get_prop h obj k else inherited e h obj k)"

text \<open>The own enumerable properties of an object, as \<open>angular.extend\<close> copies them.\<close>

fun own_entries :: "heap \<Rightarrow> jsval \<Rightarrow> props" where
  "own_entries h (JObj ps) = ps"
| "own_entries h (JArr xs) = index_entries xs"
| "own_entries h (JRef a) =
     (case read_obj h a of
        None \<Rightarrow> []
      | Some ob \<Rightarrow> (case items ob of None \<Rightarrow> [] | Some xs \<Rightarrow> index_entries xs) @ own ob)"
| "own_entries h _ = []"

text \<open>\<open>angular.forEach\<close> goes through the elements only when the object is an array.\<close>

fun forEach_entries :: "heap \<Rightarrow> jsval \<Rightarrow> props" where
  "forEach_entries h (JRef a) =
     (case read_obj h a of
        None \<Rightarrow> []
      | Some ob \<Rightarrow> (case items ob of None \<Rightarrow> own ob | Some xs \<Rightarrow> index_entries xs))"
| "forEach_entries h v = own_entries h v"

text \<open>
  \<open>angular.extend(dst, src)\<close>, as AngularJS 1.x has it: it reads \<open>dst.$$hashKey\<close>,
  copies the own enumerable properties of \<open>src\<close> onto \<open>dst\<close>, one assignment each, in
  order, and ends with \<open>setHashKey\<close>, which puts the key it read back when it was
  truthy and deletes \<open>$$hashKey\<close> from \<open>dst\<close> otherwise.
\<close>

definition setHashKey :: "props \<Rightarrow> jsval \<Rightarrow> props" where
  "setHashKey obj h =
     (if truthy h then set_prop ''$$hashKey'' h obj else delete_prop ''$$hashKey'' obj)"

definition extend :: "props \<Rightarrow> props \<Rightarrow> props" where
  "extend dst src =
     setHashKey (fold (\<lambda>kv d. set_prop (fst kv) (snd kv) d) src dst)
       (lookup_prop dst ''$$hashKey'')"

section \<open>The parameter extractor\<close>

text \<open>\<open>path.split('.')\<close>\<close>

fun split_dot :: "string \<Rightarrow> string list" where
  "split_dot [] = [[]]"
| "split_dot (c # cs) =
     (if c = CHR ''.'' then [] # split_dot cs
      else (case split_dot cs of k # ks \<Rightarrow> (c # k) # ks | [] \<Rightarrow> [[c]]))"

text \<open>The loop of \<open>lookupDottedPath\<close>, on the keys that are left.\<close>

fun lookup_keys :: "env \<Rightarrow> heap \<Rightarrow> jsval \<Rightarrow> string list \<Rightarrow> jsval" where
  "lookup_keys e h obj [] = obj"
| "lookup_keys e h obj (key # keys) =
     (if isDefined obj
      then lookup_keys e h (if obj \<noteq> JNull then js_get e h obj key else JUndefined) keys
      else obj)"

definition lookupDottedPath :: "env \<Rightarrow> heap \<Rightarrow> jsval \<Rightarrow> string \<Rightarrow> jsval" where
  "lookupDottedPath e h obj path = lookup_keys e h obj (split_dot path)"

text \<open>\<open>args[pos]\<close>, where \<open>pos\<close> is the string of digits the regular expression matched.\<close>

definition arg_at :: "jsval list \<Rightarrow> string \<Rightarrow> jsval" where
  "arg_at args pos = elem_at args pos"

text \<open>\<open>arguments[i]\<close>, undefined when the call has fewer arguments.\<close>

definition nth_arg :: "jsval list \<Rightarrow> nat \<Rightarrow> jsval" where
  "nth_arg args i = (if i < length args then args ! i else JUndefined)"

text \<open>
  \<open>extract(str, _default)\<close>, the inner function of \<open>extractParams\<close>; \<open>args\<close> and
  \<open>data\<close> are the variables of the enclosing call. The regular expression \<open>/^\d+/\<close>
  matches the longest prefix of digits, when there is one.
\<close>

definition extract_str ::
  "env \<Rightarrow> heap \<Rightarrow> jsval list \<Rightarrow> jsval \<Rightarrow> string \<Rightarrow> jsval \<Rightarrow> jsval" where
  "extract_str e h args data str dflt =
     (if str = ''='' then dflt
      else if str \<noteq> [] \<and> hd str = CHR ''@'' then
        (let str' = tl str;
             pos = takeWhile is_digit str'
         in if pos \<noteq> [] \<and> pos = str' then arg_at args pos
            else if pos \<noteq> [] \<and> length pos < length str' \<and> str' ! length pos = CHR ''.''
              then lookupDottedPath e h (arg_at args pos) (drop (length pos + 1) str')
            else lookupDottedPath e h data str')
      else JStr str)"

text \<open>
  The result of \<open>extractParams\<close>: null when there is no specification, the object a
  string specification resolved to, or the object of the extracted values, whose
  prototype holds \<open>$$missing\<close> when a value was undefined or null.
\<close>

datatype extracted =
    ENull
  | EDirect jsval
  | EMap props bool

definition extract_entry ::
  "env \<Rightarrow> heap \<Rightarrow> jsval list \<Rightarrow> jsval \<Rightarrow> string \<times> jsval \<Rightarrow> jsval" where
  "extract_entry e h args data kv =
     (let key = fst kv;
          value = (case snd kv of JFun r \<Rightarrow> r | v \<Rightarrow> v)
      in case value of
           JStr s \<Rightarrow>
             extract_str e h args data s (if truthy data then js_get e h data key else data)
         | v \<Rightarrow> v)"

definition extract_step ::
  "env \<Rightarrow> heap \<Rightarrow> jsval list \<Rightarrow> jsval \<Rightarrow> string \<times> jsval \<Rightarrow> props \<times> bool
   \<Rightarrow> props \<times> bool" where
  "extract_step e h args data kv acc =
     (let x = extract_entry e h args data kv
      in (set_prop (fst kv) x (fst acc), snd acc \<or> isUndefined x \<or> x = JNull))"

definition extractParams ::
  "env \<Rightarrow> heap \<Rightarrow> jsval \<Rightarrow> jsval list \<Rightarrow> jsval \<Rightarrow> error + extracted" where
  "extractParams e h pspec args data =
     (if isUndefined pspec then Inr ENull
      else case pspec of
        JStr str \<Rightarrow>
          (let p = extract_str e h args data str data
           in if \<not> isObject p then Inl (ExpectedTypeError ''Params for http request'' ''Object'')
              else Inr (EDirect p))
      | _ \<Rightarrow>
          if \<not> isObject pspec then Inl (ExpectedTypeError ''Params for http request'' ''Object'')
          else (let r = fold (extract_step e h args data) (forEach_entries h pspec) ([], False)
                in Inr (EMap (fst r) (snd r))))"

section \<open>Resource instances\<close>

text \<open>
  \<open>Resource.call(this, data)\<close>, on the own properties of \<open>this\<close>: the constructor of
  the class, which the library also calls on an existing instance to merge a response.
\<close>

definition Resource :: "heap \<Rightarrow> props \<Rightarrow> jsval \<Rightarrow> props" where
  "Resource h this data =
     (if isUndefined data \<or> data = JNull then this
      else if isObject data then
        (let this' = extend this (own_entries h data)
         in case array_items h data of
              Some xs \<Rightarrow> set_prop ''$$length'' (JNum (int (length xs))) this'
            | None \<Rightarrow> this')
      else set_prop ''$value'' data this)"

text \<open>\<open>AbstractResource.call(this, promise)\<close>\<close>

definition AbstractResource :: "props \<Rightarrow> jsval \<Rightarrow> props" where
  "AbstractResource this promise =
     (if promise = JBool True then delete_prop ''$$unresolved'' this
      else set_prop ''$$unresolved'' (JBool True) (set_prop ''$promise'' promise this))"

text \<open>
  The array that assigning the properties \<open>ps\<close> to \<open>[]\<close> gives: its length is one more
  than the largest index key, and an index with no key is a hole, read as undefined.
  Keys that are not indices would be named properties of the array, which a payload
  array cannot hold.
\<close>

definition array_of :: "props \<Rightarrow> jsval list" where
  "array_of ps =
     (let idx = List.map_filter (\<lambda>kv. index_key (fst kv)) ps;
          n = (if idx = [] then 0 else Suc (fold max idx 0))
      in map (\<lambda>i. lookup_prop ps (show_nat i)) [0..<n])"

text \<open>
  \<open>this.hasOwnProperty(k)\<close>, on the own properties of \<open>this\<close>: an own property
  \<open>hasOwnProperty\<close>, copied from the data, hides the method of \<open>Object.prototype\<close>,
  and calling it throws unless it is a function.
\<close>

definition this_hasOwnProperty :: "props \<Rightarrow> string \<Rightarrow> error + bool" where
  "this_hasOwnProperty this k =
     (if hasOwnProperty this ''hasOwnProperty'' then
        (case lookup_prop this ''hasOwnProperty'' of
           JFun r \<Rightarrow> Inr (truthy r)
         | _ \<Rightarrow> Inl TypeError)
      else Inr (hasOwnProperty this k))"

text \<open>The body of \<open>AbstractResource.prototype.$unwrap\<close>, on the own properties of \<open>this\<close>.\<close>

definition unwrap :: "props \<Rightarrow> error + jsval" where
  "unwrap this =
     (case this_hasOwnProperty this ''$value'' of
        Inl err \<Rightarrow> Inl err
      | Inr True \<Rightarrow> Inr (lookup_prop this ''$value'')
      | Inr False \<Rightarrow>
          (case this_hasOwnProperty this ''$$length'' of
             Inl err \<Rightarrow> Inl err
           | Inr isArr \<Rightarrow>
               (let data0 = extend [] this;
                    data1 = (if isArr then delete_prop ''$$length'' data0 else data0);
                    data2 = delete_prop ''$promise'' data1;
                    data3 = delete_prop ''$$unresolved'' data2
                in Inr (if isArr then JArr (array_of data3) else JObj data3))))"

text \<open>
  \<open>this.$unwrap()\<close>: an own property \<open>$unwrap\<close> hides the method of the prototype.
\<close>

definition call_unwrap :: "props \<Rightarrow> error + jsval" where
  "call_unwrap this =
     (if hasOwnProperty this ''$unwrap'' then
        (case lookup_prop this ''$unwrap'' of
           JFun r \<Rightarrow> Inr r
         | _ \<Rightarrow> Inl TypeError)
      else unwrap this)"

section \<open>The resource factory\<close>

definition empty_action :: action where
  "empty_action =
     \<lparr>http_method = None, subRoute = None, isArray = None, ignoreResponse = None, params = None,
      queryParams = None, hasData = None, postProcess = None, skipOnMissingParams = None\<rparr>"

text \<open>A property of the source replaces the one of the destination.\<close>

definition override :: "'a option \<Rightarrow> 'a option \<Rightarrow> 'a option" where
  "override d s = (case s of Some v \<Rightarrow> Some v | None \<Rightarrow> d)"

text \<open>\<open>extend(dst, src)\<close> on action definitions.\<close>

definition extend_action :: "action \<Rightarrow> action \<Rightarrow> action" where
  "extend_action dst src =
     \<lparr>http_method = override (http_method dst) (http_method src),
      subRoute = override (subRoute dst) (subRoute src),
      isArray = override (isArray dst) (isArray src),
      ignoreResponse = override (ignoreResponse dst) (ignoreResponse src),
      params = override (params dst) (params src),
      queryParams = override (queryParams dst) (queryParams src),
      hasData = override (hasData dst) (hasData src),
      postProcess = override (postProcess dst) (postProcess src),
      skipOnMissingParams = override (skipOnMissingParams dst) (skipOnMissingParams src)\<rparr>"

text \<open>
  \<open>action = extend({method: name}, actionsDefaults[name], action)\<close>; \<open>extend\<close> skips
  \<open>actionsDefaults[name]\<close> when it is undefined.
\<close>

definition merged_action :: "env \<Rightarrow> string \<Rightarrow> action \<Rightarrow> action" where
  "merged_action e name act =
     extend_action
       (extend_action (empty_action\<lparr>http_method := Some name\<rparr>)
          (case actionsDefaults e name of Some d \<Rightarrow> d | None \<Rightarrow> empty_action))
       act"

text \<open>
  \<open>/^(POST|PUT|PATCH)$/i.test(m)\<close>: each letter in either case.
\<close>

definition ci_match :: "string \<Rightarrow> string \<Rightarrow> string \<Rightarrow> bool" where
  "ci_match s upper lower = list_all2 (\<lambda>c ul. c = fst ul \<or> c = snd ul) s (zip upper lower)"

definition body_method :: "string \<Rightarrow> bool" where
  "body_method m =
     (ci_match m ''POST'' ''post'' \<or> ci_match m ''PUT'' ''put'' \<or> ci_match m ''PATCH'' ''patch'')"

text \<open>\<open>hasBody = action.hasData || /^(POST|PUT|PATCH)$/i.test(action.method)\<close>\<close>

definition hasBody :: "action \<Rightarrow> bool" where
  "hasBody act =
     (hasData act = Some True \<or> (case http_method act of Some m \<Rightarrow> body_method m | None \<Rightarrow> False))"

definition flag :: "bool option \<Rightarrow> bool" where
  "flag b = (b = Some True)"

definition opt_val :: "jsval option \<Rightarrow> jsval" where
  "opt_val v = (case v of Some x \<Rightarrow> x | None \<Rightarrow> JUndefined)"

definition opt_str :: "string option \<Rightarrow> jsval" where
  "opt_str v = (case v of Some x \<Rightarrow> JStr x | None \<Rightarrow> JUndefined)"

text \<open>
  \<open>verifyConfig(config, defaults)\<close>, where \<open>defaults.interceptorLimit\<close> is the number of
  interceptors.
\<close>

definition verifyConfig :: "props option \<Rightarrow> nat \<Rightarrow> error option" where
  "verifyConfig config n =
     (case config of
        None \<Rightarrow> None
      | Some c \<Rightarrow>
          if hasOwnProperty c ''interceptorLimit'' then
            (case lookup_prop c ''interceptorLimit'' of
               JNum l \<Rightarrow>
                 if l > int n
                 then Some (ConfigError
                   ''Property interceptorLimit for configmust be less than interceptors.length'')
                 else None
             | _ \<Rightarrow> Some (ExpectedTypeError ''Property interceptorLimit for config'' ''number''))
          else None)"

text \<open>
  The check of the base url in \<open>$get\<close>, then the part of \<open>ResourceFactory\<close> that comes
  before the actions: the checks of the route and of the configuration, and
  \<open>resourceConfig = extend({url: baseUrl + route}, defaultConfig, resourceConfig)\<close>.
  The types of the action record stand for \<open>verifyActions\<close>.
\<close>

definition ResourceFactory :: "env \<Rightarrow> string \<Rightarrow> props option \<Rightarrow> error + props" where
  "ResourceFactory e route config =
     (if baseUrl e = [] then
        Inl (ConfigError ''The base url for apiResource service must be configured'')
      else if route = [] then Inl (ConfigError ''Argument route is missing'')
      else case verifyConfig config (length (instancedInterceptors e)) of
             Some err \<Rightarrow> Inl err
           | None \<Rightarrow>
               Inr (extend
                 (extend [(''url'', JStr (baseUrl e @ route))]
                    [(''interceptorLimit'', JNum (int (length (instancedInterceptors e))))])
                 (case config of Some c \<Rightarrow> c | None \<Rightarrow> [])))"

section \<open>The action invoker\<close>

text \<open>The value \<open>actionConfig.params\<close> receives.\<close>

fun params_value :: "extracted \<Rightarrow> jsval" where
  "params_value ENull = JNull"
| "params_value (EDirect v) = v"
| "params_value (EMap ps m) = JObj ps"

text \<open>
  \<open>p && p.$$missing\<close>: an own property \<open>$$missing\<close> of the extracted values hides the
  one of their prototype, which is the only object they inherit from.
\<close>

fun missing :: "env \<Rightarrow> heap \<Rightarrow> extracted \<Rightarrow> bool" where
  "missing e h ENull = False"
| "missing e h (EDirect v) = (truthy v \<and> truthy (js_get e h v ''$$missing''))"
| "missing e h (EMap ps m) =
     (if hasOwnProperty ps ''$$missing'' then truthy (lookup_prop ps ''$$missing'') else m)"

fun param_entries :: "heap \<Rightarrow> extracted \<Rightarrow> props" where
  "param_entries h ENull = []"
| "param_entries h (EDirect v) = forEach_entries h v"
| "param_entries h (EMap ps m) = ps"

text \<open>
  \<open>replaceUrlParams(url, params)\<close>; \<open>url.replace\<close> is not a function when \<open>url\<close> is
  not a string.
\<close>

definition replace_step :: "env \<Rightarrow> string \<times> jsval \<Rightarrow> error + jsval \<Rightarrow> error + jsval" where
  "replace_step e kv acc =
     (case acc of
        Inl err \<Rightarrow> Inl err
      | Inr (JStr u) \<Rightarrow> Inr (JStr (js_replace e u (CHR '':'' # fst kv) (snd kv)))
      | Inr _ \<Rightarrow> Inl TypeError)"

definition replaceUrlParams :: "env \<Rightarrow> heap \<Rightarrow> jsval \<Rightarrow> extracted \<Rightarrow> error + jsval" where
  "replaceUrlParams e h url ps = fold (replace_step e) (param_entries h ps) (Inr url)"

text \<open>\<open>url + subRoute\<close>\<close>

definition js_plus :: "env \<Rightarrow> jsval \<Rightarrow> string \<Rightarrow> jsval" where
  "js_plus e v s = JStr ((case v of JStr u \<Rightarrow> u | _ \<Rightarrow> js_to_string e v) @ s)"

text \<open>A callback of a collaborator, run on the state, with its mark in the trace.\<close>

definition traced :: "event \<Rightarrow> ('a \<Rightarrow> heap \<Rightarrow> heap \<times> outcome) \<Rightarrow> 'a \<Rightarrow> state \<Rightarrow> state \<times> outcome" where
  "traced ev f v s =
     (let r = f v (heap s) in (s\<lparr>heap := fst r, trace := trace s @ [ev]\<rparr>, snd r))"

text \<open>\<open>promise.then(f, g)\<close>, on the settled promise; a callback that is not there passes on.\<close>

definition then_p ::
  "(jsval \<Rightarrow> state \<Rightarrow> state \<times> outcome) option \<Rightarrow> (reason \<Rightarrow> state \<Rightarrow> state \<times> outcome) option
   \<Rightarrow> state \<times> outcome \<Rightarrow> state \<times> outcome" where
  "then_p f g so =
     (case snd so of
        Fulfilled v \<Rightarrow> (case f of None \<Rightarrow> so | Some f' \<Rightarrow> f' v (fst so))
      | Rejected r \<Rightarrow> (case g of None \<Rightarrow> so | Some g' \<Rightarrow> g' r (fst so)))"

definition request_step :: "interceptor list \<Rightarrow> nat \<Rightarrow> state \<times> outcome \<Rightarrow> state \<times> outcome" where
  "request_step ics i so =
     (let ic = ics ! i
      in if request ic \<noteq> None \<or> requestError ic \<noteq> None
         then then_p (map_option (traced (RequestHandler i)) (request ic))
                (map_option (traced (RequestErrorHandler i)) (requestError ic)) so
         else so)"

definition throughRequestInterceptors ::
  "interceptor list \<Rightarrow> nat \<Rightarrow> state \<times> outcome \<Rightarrow> state \<times> outcome" where
  "throughRequestInterceptors ics limit so = fold (request_step ics) [0..<limit] so"

definition response_step :: "interceptor list \<Rightarrow> nat \<Rightarrow> state \<times> outcome \<Rightarrow> state \<times> outcome" where
  "response_step ics i so =
     (let ic = ics ! i
      in if response ic \<noteq> None \<or> responseError ic \<noteq> None
         then then_p (map_option (traced (ResponseHandler i)) (response ic))
                (map_option (traced (ResponseErrorHandler i)) (responseError ic)) so
         else so)"

definition throughResponseInterceptors ::
  "interceptor list \<Rightarrow> nat \<Rightarrow> state \<times> outcome \<Rightarrow> state \<times> outcome" where
  "throughResponseInterceptors ics limit so = fold (response_step ics) [0..<limit] so"

text \<open>
  \<open>promise.then(function (config) { return $http(config).then(...) })\<close>: the transport
  is called when the request phase fulfils, and \<open>rawResponse\<close> is assigned when the
  transport fulfils.
\<close>

definition call_http :: "env \<Rightarrow> state \<times> outcome \<Rightarrow> (state \<times> outcome) \<times> nat option" where
  "call_http e so =
     (case snd so of
        Rejected r \<Rightarrow> (so, None)
      | Fulfilled config \<Rightarrow>
          (let s = fst so;
               r = http e config (heap s);
               s' = s\<lparr>heap := fst r, trace := trace s @ [TransportCall config]\<rparr>
           in case snd r of
                Inl rsn \<Rightarrow> ((s', Rejected rsn), None)
              | Inr a \<Rightarrow> ((s', Fulfilled (JRef a)), Some a)))"

text \<open>\<open>rawResponse === response\<close>, where \<open>rawResponse\<close> is undefined until assigned.\<close>

definition same_as_raw :: "nat option \<Rightarrow> jsval \<Rightarrow> bool" where
  "same_as_raw rawResponse resp =
     (case rawResponse of None \<Rightarrow> resp = JUndefined | Some a \<Rightarrow> resp = JRef a)"

text \<open>
  \<open>return rawResponse === response ? response.data : response\<close>; reading \<open>data\<close> of
  undefined throws.
\<close>

definition unwrap_response :: "nat option \<Rightarrow> state \<times> outcome \<Rightarrow> state \<times> outcome" where
  "unwrap_response rawResponse so =
     (case snd so of
        Rejected r \<Rightarrow> so
      | Fulfilled resp \<Rightarrow>
          if same_as_raw rawResponse resp then
            (if resp = JUndefined then (fst so, Rejected (Thrown TypeError))
             else (fst so, Fulfilled (get_prop (heap (fst so)) resp ''data'')))
          else so)"

text \<open>The promise \<open>performAction\<close> builds when it does not skip the call.\<close>

definition request_promise :: "env \<Rightarrow> action \<Rightarrow> props \<Rightarrow> nat \<Rightarrow> promise" where
  "request_promise e act actionConfig limit s =
     (let so1 = throughRequestInterceptors (instancedInterceptors e) limit
                  (s, Fulfilled (JObj actionConfig));
          so2 = call_http e so1;
          so3 = throughResponseInterceptors (instancedInterceptors e) limit (fst so2);
          so4 = unwrap_response (snd so2) so3
      in then_p (map_option (traced PostProcess) (postProcess act)) None so4)"

text \<open>
  The bound of the loops over the interceptors: \<open>actionConfig.interceptorLimit\<close>, a
  number after \<open>verifyConfig\<close>.
\<close>

definition limit_of :: "props \<Rightarrow> nat" where
  "limit_of actionConfig =
     (case lookup_prop actionConfig ''interceptorLimit'' of JNum l \<Rightarrow> nat l | _ \<Rightarrow> 0)"

text \<open>
  \<open>performAction(data, args)\<close>, for the merged action \<open>act\<close> in the store \<open>h\<close> of the
  call: an error thrown while the request is built, or the promise. Reading
  \<open>interceptor.request\<close> throws when the limit is beyond the interceptors.
  \<open>base_config\<close> is \<open>actionConfig\<close> after its method, body and sub-route are set.
\<close>

definition base_config :: "env \<Rightarrow> props \<Rightarrow> action \<Rightarrow> jsval \<Rightarrow> props" where
  "base_config e resourceConfig act data =
     (let c0 = extend [(''method'', opt_str (http_method act))] resourceConfig;
          c1 = (if hasBody act then set_prop ''data'' data c0 else c0)
      in case subRoute act of
           None \<Rightarrow> c1
         | Some sub \<Rightarrow>
             if sub = [] then c1
             else set_prop ''url'' (js_plus e (lookup_prop c1 ''url'') sub) c1)"

definition performAction ::
  "env \<Rightarrow> props \<Rightarrow> action \<Rightarrow> heap \<Rightarrow> jsval \<Rightarrow> jsval list \<Rightarrow> error + promise" where
  "performAction e resourceConfig act h data args =
     (let c2 = base_config e resourceConfig act data
      in case extractParams e h (opt_val (params act)) args data of
           Inl err \<Rightarrow> Inl err
         | Inr urlParams \<Rightarrow>
             (case replaceUrlParams e h (lookup_prop c2 ''url'') urlParams of
                Inl err \<Rightarrow> Inl err
              | Inr url \<Rightarrow>
                  (case extractParams e h (opt_val (queryParams act)) args data of
                     Inl err \<Rightarrow> Inl err
                   | Inr qParams \<Rightarrow>
                       (let c3 = set_prop ''params'' (params_value qParams)
                                   (set_prop ''url'' url c2)
                        in if flag (skipOnMissingParams act)
                              \<and> (missing e h urlParams \<or> missing e h qParams)
                           then Inr (\<lambda>s. (s, Fulfilled JNull))
                           else if limit_of c3 > length (instancedInterceptors e)
                           then Inl TypeError
                           else Inr (request_promise e act c3 (limit_of c3))))))"

section \<open>The generated methods\<close>

definition alloc :: "hobj \<Rightarrow> state \<Rightarrow> nat \<times> state" where
  "alloc ob s = (length (heap s), s\<lparr>heap := heap s @ [ob]\<rparr>)"

definition update_own :: "nat \<Rightarrow> (props \<Rightarrow> props) \<Rightarrow> heap \<Rightarrow> heap" where
  "update_own a f h = (if a < length h then h[a := (h ! a)\<lparr>own := f (own (h ! a))\<rparr>] else h)"

definition own_of :: "heap \<Rightarrow> nat \<Rightarrow> props" where
  "own_of h a = (case read_obj h a of Some ob \<Rightarrow> own ob | None \<Rightarrow> [])"

text \<open>\<open>new Resource(data)\<close>\<close>

definition new_Resource :: "jsval \<Rightarrow> state \<Rightarrow> nat \<times> state" where
  "new_Resource data s = alloc \<lparr>items = None, own = Resource (heap s) [] data\<rparr> s"

text \<open>\<open>Resource.call(resource, data)\<close>, for a resource of the store.\<close>

definition Resource_call :: "nat \<Rightarrow> jsval \<Rightarrow> state \<Rightarrow> state" where
  "Resource_call w data s =
     s\<lparr>heap := update_own w (\<lambda>this. Resource (heap s) this data) (heap s)\<rparr>"

text \<open>\<open>AbstractResource.bind(x, true)\<close>, the callback of \<open>finally\<close>.\<close>

definition clear_unresolved :: "nat \<Rightarrow> state \<Rightarrow> state" where
  "clear_unresolved a s =
     s\<lparr>heap := update_own a (\<lambda>this. AbstractResource this (JBool True)) (heap s)\<rparr>"

text \<open>\<open>AbstractResource.call(x, promise)\<close>, for the promise the call has just built.\<close>

definition attach_promise :: "nat \<Rightarrow> state \<Rightarrow> state" where
  "attach_promise a s =
     s\<lparr>heap := update_own a (\<lambda>this. AbstractResource this (JPromise (pcount s))) (heap s),
       pcount := Suc (pcount s)\<rparr>"

text \<open>\<open>promise.finally(cb)\<close>: the callback runs, the outcome passes on.\<close>

definition finally_p :: "(state \<Rightarrow> state) \<Rightarrow> state \<times> outcome \<Rightarrow> state \<times> outcome" where
  "finally_p cb so = (cb (fst so), snd so)"

definition updateResource :: "action \<Rightarrow> nat \<Rightarrow> jsval \<Rightarrow> state \<Rightarrow> state \<times> outcome" where
  "updateResource act resource data s =
     (if hasBody act \<and> flag (ignoreResponse act) then (s, Fulfilled data)
      else (Resource_call resource data s, Fulfilled (JRef resource)))"

text \<open>
  \<open>modifyResource(item, index)\<close>: \<open>Resource.call(resources[index], item)\<close>. When
  \<open>resources[index]\<close> is not an object, the constructor returns at once for an item
  that is undefined or null, and throws a TypeError when it assigns to \<open>this\<close>.
\<close>

definition modifyResource :: "nat \<Rightarrow> jsval \<Rightarrow> nat \<Rightarrow> state \<Rightarrow> state \<times> error option" where
  "modifyResource resources item index s =
     (case (case array_items (heap s) (JRef resources) of
              Some ws \<Rightarrow> nth_arg ws index
            | None \<Rightarrow> JUndefined) of
        JRef w \<Rightarrow> (Resource_call w item s, None)
      | _ \<Rightarrow> if isUndefined item \<or> item = JNull then (s, None) else (s, Some TypeError))"

definition push_item :: "nat \<Rightarrow> jsval \<Rightarrow> heap \<Rightarrow> heap" where
  "push_item a v h =
     (if a < length h
      then h[a := (h ! a)\<lparr>items := (case items (h ! a) of Some xs \<Rightarrow> Some (xs @ [v])
                                                       | None \<Rightarrow> None)\<rparr>]
      else h)"

text \<open>\<open>pushNewResource(item)\<close>: \<open>resources.push(new Resource(item))\<close>\<close>

definition pushNewResource :: "nat \<Rightarrow> jsval \<Rightarrow> nat \<Rightarrow> state \<Rightarrow> state \<times> error option" where
  "pushNewResource resources item index s =
     (let ws = new_Resource item s;
          s' = snd ws
      in (s'\<lparr>heap := push_item resources (JRef (fst ws)) (heap s')\<rparr>, None))"

text \<open>\<open>data.forEach(callback)\<close>, from index \<open>i\<close> on; a callback that throws ends it.\<close>

fun forEach_items ::
  "(jsval \<Rightarrow> nat \<Rightarrow> state \<Rightarrow> state \<times> error option) \<Rightarrow> jsval list \<Rightarrow> nat \<Rightarrow> state
   \<Rightarrow> state \<times> error option" where
  "forEach_items cb [] i s = (s, None)"
| "forEach_items cb (x # xs) i s =
     (case cb x i s of
        (s', Some err) \<Rightarrow> (s', Some err)
      | (s', None) \<Rightarrow> forEach_items cb xs (Suc i) s')"

definition updateResourceArray ::
  "string \<Rightarrow> action \<Rightarrow> nat \<Rightarrow> (jsval \<Rightarrow> nat \<Rightarrow> state \<Rightarrow> state \<times> error option)
   \<Rightarrow> jsval \<Rightarrow> state \<Rightarrow> state \<times> outcome" where
  "updateResourceArray name act resources callback data s =
     (if hasBody act \<and> flag (ignoreResponse act) then (s, Fulfilled data)
      else if isDefined data \<and> data \<noteq> JNull then
        (case array_items (heap s) data of
           None \<Rightarrow> (s, Rejected (Thrown (ExpectedArrayError name)))
         | Some xs \<Rightarrow>
             (case forEach_items callback xs 0 s of
                (s', Some err) \<Rightarrow> (s', Rejected (Thrown err))
              | (s', None) \<Rightarrow> (s', Fulfilled (JRef resources))))
      else (s, Fulfilled (JRef resources)))"

text \<open>
  \<open>performAction(data, args).finally(AbstractResource.bind(resource, true))
  .then(updateResource(resource))\<close>
\<close>

definition resource_promise :: "action \<Rightarrow> nat \<Rightarrow> promise \<Rightarrow> promise" where
  "resource_promise act resource q s =
     then_p (Some (updateResource act resource)) None
       (finally_p (clear_unresolved resource) (q s))"

text \<open>
  \<open>performAction(data, args).finally(AbstractResource.bind(resources, true))
  .then(updateResourceArray(resources, hasBody ? modifyResource : pushNewResource))\<close>
\<close>

definition resources_promise :: "string \<Rightarrow> action \<Rightarrow> nat \<Rightarrow> promise \<Rightarrow> promise" where
  "resources_promise name act resources q s =
     then_p
       (Some (updateResourceArray name act resources
          (if hasBody act then modifyResource resources else pushNewResource resources)))
       None
       (finally_p (clear_unresolved resources) (q s))"

text \<open>\<open>data.map(function (item) { return new Resource(item) })\<close>\<close>

fun new_Resources :: "jsval list \<Rightarrow> state \<Rightarrow> jsval list \<times> state" where
  "new_Resources [] s = ([], s)"
| "new_Resources (x # xs) s =
     (let w = new_Resource x s;
          r = new_Resources xs (snd w)
      in (JRef (fst w) # fst r, snd r))"

definition method_text :: "action \<Rightarrow> string" where
  "method_text act = (case http_method act of Some m \<Rightarrow> m | None \<Rightarrow> ''undefined'')"

text \<open>
  The rest of a collection call, once the elements \<open>xs\<close> of the body are known (none
  when the action has no body).
\<close>

definition collection_call ::
  "env \<Rightarrow> props \<Rightarrow> string \<Rightarrow> action \<Rightarrow> jsval list \<Rightarrow> jsval \<Rightarrow> jsval list \<Rightarrow> state
   \<Rightarrow> state \<times> (error + jsval \<times> promise)" where
  "collection_call e resourceConfig name act xs data args s =
     (let ws = new_Resources xs s;
          ra = alloc \<lparr>items = Some (fst ws), own = []\<rparr> (snd ws);
          resources = fst ra;
          s2 = snd ra
      in case performAction e resourceConfig act (heap s2) data args of
           Inl err \<Rightarrow> (s2, Inl err)
         | Inr q \<Rightarrow>
             (attach_promise resources s2,
              Inr (JRef resources, resources_promise name act resources q)))"

definition singular_call ::
  "env \<Rightarrow> props \<Rightarrow> action \<Rightarrow> jsval \<Rightarrow> jsval list \<Rightarrow> state
   \<Rightarrow> state \<times> (error + jsval \<times> promise)" where
  "singular_call e resourceConfig act data args s =
     (let w = new_Resource data s;
          resource = fst w;
          s1 = snd w
      in case performAction e resourceConfig act (heap s1) data args of
           Inl err \<Rightarrow> (s1, Inl err)
         | Inr q \<Rightarrow>
             (attach_promise resource s1,
              Inr (JRef resource, resource_promise act resource q)))"

text \<open>
  \<open>Resource[name](data, ...)\<close>, the class method of the merged action \<open>act\<close>, called
  with \<open>arguments\<close>: the state it leaves, and the error it throws or the value it
  returns with the promise it attached.
\<close>

definition Resource_action ::
  "env \<Rightarrow> props \<Rightarrow> string \<Rightarrow> action \<Rightarrow> jsval list \<Rightarrow> state
   \<Rightarrow> state \<times> (error + jsval \<times> promise)" where
  "Resource_action e resourceConfig name act arguments s =
     (let args = drop (if hasBody act then 1 else 0) arguments;
          data0 = nth_arg arguments 0
      in if hasBody act \<and> (isUndefined data0 \<or> data0 = JNull)
         then (s, Inl (MissingBodyError name (method_text act)))
         else
           (let data = (if hasBody act then data0 else JNull)
            in if flag (isArray act) then
                 (if hasBody act then
                    (case array_items (heap s) data of
                       None \<Rightarrow> (s, Inl (ExpectedArrayError name))
                     | Some xs \<Rightarrow> collection_call e resourceConfig name act xs data args s)
                  else collection_call e resourceConfig name act [] data args s)
               else singular_call e resourceConfig act data args s))"

text \<open>
  \<open>Resource.prototype['$' + name]\<close>, called on the resource \<open>this\<close> of the store; the
  method is defined for an action that is not a collection action only.
\<close>

definition Resource_instance_action ::
  "env \<Rightarrow> props \<Rightarrow> string \<Rightarrow> action \<Rightarrow> nat \<Rightarrow> jsval list \<Rightarrow> state
   \<Rightarrow> state \<times> (error + jsval \<times> promise)" where
  "Resource_instance_action e resourceConfig name act this arguments s =
     (if flag (isArray act) then (s, Inl TypeError)
      else if truthy (get_prop (heap s) (JRef this) ''$$unresolved'')
      then (s, Inl (UnresolvedRequest name))
      else
        (case call_unwrap (own_of (heap s) this) of
           Inl err \<Rightarrow> (s, Inl err)
         | Inr data \<Rightarrow>
             (case performAction e resourceConfig act (heap s) data arguments of
                Inl err \<Rightarrow> (s, Inl err)
              | Inr q \<Rightarrow>
                  (attach_promise this s,
                   Inr (JPromise (pcount s), resource_promise act this q)))))"

section \<open>Running a call, and sample collaborators\<close>

text \<open>What a call returned, undefined when it threw.\<close>

definition returned :: "state \<times> (error + jsval \<times> promise) \<Rightarrow> jsval" where
  "returned r = (case snd r of Inr vp \<Rightarrow> fst vp | Inl err \<Rightarrow> JUndefined)"

text \<open>
  The promise of a call, settled in the state the call left; a call that threw has no
  promise, and its error stands for the outcome.
\<close>

definition settle :: "state \<times> (error + jsval \<times> promise) \<Rightarrow> state \<times> outcome" where
  "settle r = (case snd r of Inr vp \<Rightarrow> snd vp (fst r) | Inl err \<Rightarrow> (fst r, Rejected (Thrown err)))"


text \<open>
  A transport that answers every request with the data \<open>{name: 'Ann'}\<close>, no
  interceptor, no defaults, a \<open>replace\<close> that finds no placeholder, and prototypes
  that give every value a \<open>constructor\<close> and a \<open>toString\<close>.
\<close>

definition sample_inherited :: "heap \<Rightarrow> jsval \<Rightarrow> string \<Rightarrow> jsval" where
  "sample_inherited h v k =
     (if k = ''constructor'' \<or> k = ''toString'' then JFun (JStr ''Object'') else JUndefined)"


definition sample_http :: "jsval \<Rightarrow> heap \<Rightarrow> heap \<times> (reason + nat)" where
  "sample_http config h =
     (h @ [\<lparr>items = None, own = [(''data'', JObj [(''name'', JStr ''Ann'')]), (''status'', JNum 200)]\<rparr>],
      Inr (length h))"

definition sample_env :: env where
  "sample_env =
     \<lparr>http = sample_http, instancedInterceptors = [], actionsDefaults = (\<lambda>name. None),
      baseUrl = ''/api'', js_to_string = (\<lambda>v. []), js_replace = (\<lambda>u pat v. u),
      inherited = sample_inherited\<rparr>"

text \<open>A transport that rejects every request.\<close>

definition failing_env :: env where
  "failing_env = sample_env\<lparr>http := (\<lambda>config h. (h, Inl (Reason (JStr ''offline''))))\<rparr>"

text \<open>Resource configurations as \<open>ResourceFactory\<close> builds them for the route \<open>/user\<close>.\<close>

definition sample_config :: props where
  "sample_config = [(''url'', JStr ''/api/user''), (''interceptorLimit'', JNum 0)]"

definition delete_config :: props where
  "delete_config =
     [(''url'', JStr ''/api/user''), (''interceptorLimit'', JNum 0), (''method'', JStr ''DELETE'')]"

definition sample_state :: state where
  "sample_state = \<lparr>heap = [], pcount = 0, trace = []\<rparr>"

text \<open>Merged actions: a plain GET, one that ignores the response, one that skips.\<close>

definition get_action :: action where
  "get_action = empty_action\<lparr>http_method := Some ''get''\<rparr>"

definition ignoring_get :: action where
  "ignoring_get = get_action\<lparr>ignoreResponse := Some True\<rparr>"


text \<open>
  The request configuration of a GET on the sample route, and the state a first static
  call of it leaves.
\<close>

definition get_request :: props where
  "get_request =
     [(''method'', JStr ''get''), (''url'', JStr ''/api/user''), (''interceptorLimit'', JNum 0),
      (''params'', JNull)]"

definition pending_state :: state where
  "pending_state =
     \<lparr>heap = [\<lparr>items = None, own = [(''$promise'', JPromise 0), (''$$unresolved'', JBool True)]\<rparr>],
      pcount = 1, trace = []\<rparr>"

text \<open>The state once that call was rejected by the transport that rejects.\<close>

definition settled_state :: state where
  "settled_state =
     \<lparr>heap = [\<lparr>items = None, own = [(''$promise'', JPromise 0)]\<rparr>],
      pcount = 1, trace = [TransportCall (JObj get_request)]\<rparr>"


text \<open>
  An interceptor whose \<open>responseError\<close> returns nothing, with the transport that
  rejects, and the resource configuration and request of a GET under a limit of one.
\<close>

definition swallowing_interceptor :: interceptor where
  "swallowing_interceptor =
     \<lparr>request = None, requestError = None, response = None,
      responseError = Some (\<lambda>rejection h. (h, Fulfilled JUndefined))\<rparr>"

definition swallowing_env :: env where
  "swallowing_env = failing_env\<lparr>instancedInterceptors := [swallowing_interceptor]\<rparr>"

definition swallowing_config :: props where
  "swallowing_config = [(''url'', JStr ''/api/user''), (''interceptorLimit'', JNum 1)]"

definition swallowing_request :: props where
  "swallowing_request =
     [(''method'', JStr ''get''), (''url'', JStr ''/api/user''), (''interceptorLimit'', JNum 1),
      (''params'', JNull)]"

text \<open>
  A transport that answers with an array of four numbers, and a collection action with
  a body.
\<close>

definition list_http :: "jsval \<Rightarrow> heap \<Rightarrow> heap \<times> (reason + nat)" where
  "list_http config h =
     (h @ [\<lparr>items = None, own = [(''data'', JArr [JNum 1, JNum 2, JNum 3, JNum 4])]\<rparr>],
      Inr (length h))"

definition list_env :: env where
  "list_env = sample_env\<lparr>http := list_http\<rparr>"

definition save_all :: action where
  "save_all = empty_action\<lparr>http_method := Some ''POST'', isArray := Some True\<rparr>"

text \<open>
  The update of a collection as the specification words it: the resource at index \<open>i\<close>
  receives the element \<open>i\<close> of the response, in index order, as far as both go.
\<close>

fun update_each :: "nat list \<Rightarrow> jsval list \<Rightarrow> state \<Rightarrow> state" where
  "update_each (w # ws) (y # ys) s = update_each ws ys (Resource_call w y s)"
| "update_each ws ys s = s"



text \<open>The request configurations the transport was called with, in order.\<close>

definition transport_requests :: "state \<Rightarrow> jsval list" where
  "transport_requests s =
     List.map_filter (\<lambda>ev. case ev of TransportCall c \<Rightarrow> Some c | _ \<Rightarrow> None) (trace s)"


text \<open>
  An action with a body whose path and query parameter \<open>id\<close> are mapped to \<open>"@2"\<close>,
  and the arguments of a call of it: the body, then three more.
\<close>

definition save_at_2 :: action where
  "save_at_2 =
     empty_action\<lparr>http_method := Some ''POST'', params := Some (JObj [(''id'', JStr ''@2'')]),
       queryParams := Some (JObj [(''id'', JStr ''@2'')])\<rparr>"

definition save_arguments :: "jsval list" where
  "save_arguments = [JObj [(''n'', JNum 1)], JStr ''u'', JStr ''v'', JNum 7]"

section \<open>Properties of the parameter extractor\<close>

lemma map_of_set_prop: "map_of (set_prop k v ps) = (map_of ps)(k \<mapsto> v)"
  by (induction ps) (auto simp: fun_eq_iff)

lemma lookup_set_prop:
  "lookup_prop (set_prop k v ps) k' = (if k' = k then v else lookup_prop ps k')"
  by (simp add: lookup_prop_def map_of_set_prop)

lemma fold_step_other:
  "k \<notin> fst ` set es \<Longrightarrow>
   lookup_prop (fst (fold (extract_step e h args data) es acc)) k = lookup_prop (fst acc) k"
  by (induction es arbitrary: acc) (auto simp: extract_step_def Let_def lookup_set_prop)

lemma fold_step_value:
  "distinct (map fst es) \<Longrightarrow> (k, v) \<in> set es \<Longrightarrow>
   lookup_prop (fst (fold (extract_step e h args data) es acc)) k = extract_entry e h args data (k, v)"
proof (induction es arbitrary: acc)
  case Nil
  then show ?case by simp
next
  case (Cons x es)
  show ?case
  proof (cases "x = (k, v)")
    case True
    with Cons.prems have "k \<notin> fst ` set es" by auto
    then show ?thesis using True
      by (simp add: fold_step_other) (simp add: extract_step_def Let_def lookup_set_prop)
  next
    case False
    with Cons.prems have "(k, v) \<in> set es" "distinct (map fst es)" by auto
    then show ?thesis using Cons.IH by simp
  qed
qed

lemma fold_step_missing:
  "snd (fold (extract_step e h args data) es acc) =
   (snd acc \<or> (\<exists>kv \<in> set es. isUndefined (extract_entry e h args data kv) \<or> extract_entry e h args data kv = JNull))"
  by (induction es arbitrary: acc) (auto simp: extract_step_def Let_def)

lemma extractParams_object:
  "extractParams e h (JObj ps) args data =
   Inr (EMap (fst (fold (extract_step e h args data) ps ([], False)))
             (snd (fold (extract_step e h args data) ps ([], False))))"
  by (simp add: extractParams_def isUndefined_def Let_def)

lemma index_key_2: "index_key ''2'' = Some 2"
  by (simp add: index_key_def is_digit_def dec_val_def digit_val_def)

lemma index_key_3: "index_key ''3'' = Some 3"
  by (simp add: index_key_def is_digit_def dec_val_def digit_val_def)

lemma extract_at_2: "extract_str e h args data ''@2'' dflt = nth_arg args 2"
  by (simp add: extract_str_def nth_arg_def arg_at_def elem_at_def index_key_2 is_digit_def)

lemma extract_at_3_a_b: "extract_str e h args data ''@3.a.b'' dflt = lookupDottedPath e h (nth_arg args 3) ''a.b''"
  by (simp add: extract_str_def nth_arg_def arg_at_def elem_at_def index_key_3 is_digit_def)

lemma lookup_a_b:
  "lookupDottedPath e h obj ''a.b'' =
     (if obj = JUndefined \<or> obj = JNull then JUndefined
      else if js_get e h obj ''a'' = JUndefined \<or> js_get e h obj ''a'' = JNull then JUndefined
      else js_get e h (js_get e h obj ''a'') ''b'')"
  by (simp add: lookupDottedPath_def isDefined_def)

text \<open>
  At the level of the extractor: when an entry of the specification is the mapper string
  \<open>"@2"\<close>, the value extracted for its key is \<open>args[2]\<close>, whatever \<open>data\<close> holds.
\<close>

lemma extractParams_args_2:
  assumes "distinct (map fst ps)" and "(k, JStr ''@2'') \<in> set ps"
  shows "\<exists>ex m. extractParams e h (JObj ps) args data = Inr (EMap ex m)
           \<and> lookup_prop ex k = nth_arg args 2"
  using assms
  by (simp add: extractParams_object fold_step_value [where v = "JStr ''@2''"]
      extract_entry_def extract_at_2)

text \<open>
  Claim C8. When an entry of a \<open>params\<close> or \<open>queryParams\<close> object is the mapper string
  \<open>"@3.a.b"\<close>, the value extracted for its key is the dotted lookup \<open>a.b\<close> on call
  argument 3, that is \<open>args[3].a.b\<close> with undefined in place of a step on undefined or
  null. If argument 3 or \<open>args[3].a\<close> is undefined, the value is undefined and the
  missing flag is set; the flag is set whenever the value is undefined.
\<close>

theorem extractParams_at_3_a_b:
  assumes "distinct (map fst ps)" and "(k, JStr ''@3.a.b'') \<in> set ps"
  shows "\<exists>ex m. extractParams e h (JObj ps) args data = Inr (EMap ex m)
           \<and> lookup_prop ex k = lookupDottedPath e h (nth_arg args 3) ''a.b''
           \<and> lookupDottedPath e h (nth_arg args 3) ''a.b'' =
               (if nth_arg args 3 = JUndefined \<or> nth_arg args 3 = JNull then JUndefined
                else if js_get e h (nth_arg args 3) ''a'' = JUndefined
                        \<or> js_get e h (nth_arg args 3) ''a'' = JNull then JUndefined
                else js_get e h (js_get e h (nth_arg args 3) ''a'') ''b'')
           \<and> ((nth_arg args 3 = JUndefined \<or> js_get e h (nth_arg args 3) ''a'' = JUndefined)
                \<longrightarrow> lookup_prop ex k = JUndefined \<and> m)
           \<and> (lookup_prop ex k = JUndefined \<longrightarrow> m)"
proof -
  let ?r = "fold (extract_step e h args data) ps ([], False)"
  let ?v = "lookupDottedPath e h (nth_arg args 3) ''a.b''"
  have x: "extract_entry e h args data (k, JStr ''@3.a.b'') = ?v"
    by (simp add: extract_entry_def extract_at_3_a_b)
  have v: "lookup_prop (fst ?r) k = ?v"
    using assms fold_step_value [of ps k "JStr ''@3.a.b''" e h args data "([], False)"] x by simp
  have m: "?v = JUndefined \<Longrightarrow> snd ?r"
    using assms(2) x by (subst fold_step_missing) (auto simp: isUndefined_def)
  have u: "nth_arg args 3 = JUndefined \<or> js_get e h (nth_arg args 3) ''a'' = JUndefined
           \<Longrightarrow> ?v = JUndefined"
    by (auto simp: lookup_a_b)
  show ?thesis
    unfolding extractParams_object using v m u lookup_a_b [of e h "nth_arg args 3"] by auto
qed

theorem extractParams_at_3_a_b_witness:
  "distinct (map fst [(''id'', JStr ''@3.a.b'')])
   \<and> (''id'', JStr ''@3.a.b'') \<in> set [(''id'', JStr ''@3.a.b'')]
   \<and> (\<exists>ex m. extractParams sample_env [] (JObj [(''id'', JStr ''@3.a.b'')])
                 [JNull, JNull, JNull, JObj [(''c'', JObj [(''b'', JNum 1)])]] JNull = Inr (EMap ex m)
           \<and> lookup_prop ex ''id'' = JUndefined \<and> m)"
  using extractParams_at_3_a_b [where ps = "[(''id'', JStr ''@3.a.b'')]" and k = "''id''"
      and e = sample_env and h = "[]"
      and args = "[JNull, JNull, JNull, JObj [(''c'', JObj [(''b'', JNum 1)])]]" and data = JNull]
  by (auto simp: nth_arg_def lookup_prop_def js_get_def hasOwnProperty_def sample_env_def
      sample_inherited_def)

section \<open>Properties of objects and of the store\<close>




lemma hasOwnProperty_iff: "hasOwnProperty ps k = (k \<in> fst ` set ps)"
  by (simp add: hasOwnProperty_def map_of_eq_None_iff)

lemma lookup_delete_prop: "lookup_prop (delete_prop k ps) k = JUndefined"
proof -
  have "map_of (delete_prop k ps) k = None"
    by (induction ps) (auto simp: delete_prop_def)
  then show ?thesis by (simp add: lookup_prop_def)
qed

lemma lookup_delete_other:
  "k \<noteq> k' \<Longrightarrow> lookup_prop (delete_prop k' ps) k = lookup_prop ps k"
proof -
  assume "k \<noteq> k'"
  then have "map_of (delete_prop k' ps) k = map_of ps k"
    by (induction ps) (auto simp: delete_prop_def)
  then show ?thesis by (simp add: lookup_prop_def)
qed



lemma lookup_copy_other:
  "k \<notin> fst ` set src \<Longrightarrow>
   lookup_prop (fold (\<lambda>kv d. set_prop (fst kv) (snd kv) d) src dst) k = lookup_prop dst k"
  by (induction src arbitrary: dst) (auto simp: lookup_set_prop)

lemma lookup_extend_other:
  "k \<notin> fst ` set src \<Longrightarrow> k \<noteq> ''$$hashKey'' \<Longrightarrow>
   lookup_prop (extend dst src) k = lookup_prop dst k"
  by (simp add: extend_def setHashKey_def lookup_set_prop lookup_delete_other lookup_copy_other)






lemma unresolved_not_index: "index_key ''$$unresolved'' = None"
  by (simp add: index_key_def is_digit_def)

lemma cleared_flag:
  "get_prop (heap (clear_unresolved w s)) (JRef w) ''$$unresolved'' = JUndefined"
  by (simp add: clear_unresolved_def update_own_def read_obj_def AbstractResource_def
      lookup_delete_prop unresolved_not_index split: option.splits)


section \<open>Properties of the generated methods\<close>

lemma resource_promise_fulfilled:
  "q s1 = (s2, Fulfilled d) \<Longrightarrow>
   resource_promise act w q s1 = updateResource act w d (clear_unresolved w s2)"
  by (simp add: resource_promise_def then_p_def finally_p_def)

lemma resource_promise_rejected:
  "q s1 = (s2, Rejected r) \<Longrightarrow> resource_promise act w q s1 = (clear_unresolved w s2, Rejected r)"
  by (simp add: resource_promise_def then_p_def finally_p_def)

lemma singular_call_Inr:
  assumes "singular_call e rc act data args s = (s', Inr (v, p))"
  shows "\<exists>q. performAction e rc act (heap (snd (new_Resource data s))) data args = Inr q
           \<and> v = JRef (length (heap s)) \<and> p = resource_promise act (length (heap s)) q
           \<and> s' = attach_promise (length (heap s)) (snd (new_Resource data s))"
  using assms
  by (auto simp: singular_call_def Let_def new_Resource_def alloc_def split: sum.splits)

lemma Resource_action_singular:
  assumes "\<not> flag (isArray act)"
    and "Resource_action e rc name act arguments s = (s', Inr (v, p))"
  shows "singular_call e rc act (if hasBody act then nth_arg arguments 0 else JNull)
           (drop (if hasBody act then 1 else 0) arguments) s = (s', Inr (v, p))"
  using assms by (auto simp: Resource_action_def Let_def split: if_splits)

lemma base_config_method:
  "lookup_prop (base_config e rc act data) ''method''
     = lookup_prop (extend [(''method'', opt_str (http_method act))] rc) ''method''"
  by (simp add: base_config_def Let_def lookup_set_prop split: option.splits)

text \<open>The definitions a call on the sample collaborators unfolds to.\<close>

lemmas eval_defs =
  sample_http_def sample_env_def failing_env_def sample_config_def sample_state_def get_action_def
  empty_action_def Resource_action_def singular_call_def collection_call_def
  new_Resource_def alloc_def attach_promise_def update_own_def Resource_def AbstractResource_def
  nth_arg_def hasBody_def body_method_def ci_match_def flag_def isUndefined_def isDefined_def
  performAction_def base_config_def extend_def setHashKey_def delete_prop_def opt_str_def opt_val_def extractParams_def
  replaceUrlParams_def replace_step_def lookup_prop_def limit_of_def Let_def

lemmas run_defs = returned_def settle_def ignoring_get_def resource_promise_def then_p_def finally_p_def
  clear_unresolved_def updateResource_def Resource_call_def request_promise_def
  throughRequestInterceptors_def throughResponseInterceptors_def call_http_def unwrap_response_def
  same_as_raw_def read_obj_def own_of_def delete_prop_def

lemma lookup_AbstractResource_other:
  "k \<noteq> ''$promise'' \<Longrightarrow> k \<noteq> ''$$unresolved'' \<Longrightarrow> promise \<noteq> JBool True \<Longrightarrow>
   lookup_prop (AbstractResource this promise) k = lookup_prop this k"
  by (simp add: AbstractResource_def lookup_set_prop)






text \<open>
  Outside the amended claim: a key \<open>hasOwnProperty\<close> of the data hides the method that
  \<open>$unwrap\<close> calls, which throws; and \<open>$unwrap\<close> of a resource built from an array gives
  the array back, without \<open>$$length\<close>.
\<close>

lemma unwrap_shadowed_throws:
  "call_unwrap (own_of
     (heap (snd (new_Resource (JObj [(''hasOwnProperty'', JNum 1)]) sample_state)))
     (fst (new_Resource (JObj [(''hasOwnProperty'', JNum 1)]) sample_state))) = Inl TypeError"
  by (simp add: new_Resource_def alloc_def own_of_def read_obj_def
      sample_state_def Resource_def isUndefined_def extend_def setHashKey_def delete_prop_def
      lookup_prop_def call_unwrap_def unwrap_def this_hasOwnProperty_def hasOwnProperty_def)

lemma unwrap_array_example:
  "Resource [] [] (JArr [JStr ''x'', JStr ''y''])
     = [(''0'', JStr ''x''), (''1'', JStr ''y''), (''$$length'', JNum 2)]
   \<and> call_unwrap (AbstractResource (Resource [] [] (JArr [JStr ''x'', JStr ''y''])) (JPromise 0))
     = Inr (JArr [JStr ''x'', JStr ''y''])"
  by (simp add: Resource_def isUndefined_def extend_def setHashKey_def delete_prop_def
      lookup_prop_def call_unwrap_def unwrap_def this_hasOwnProperty_def hasOwnProperty_def
      AbstractResource_def index_entries_def show_nat.simps digit_char_def upt_rec array_of_def
      List.map_filter_def index_key_def is_digit_def dec_val_def digit_val_def Let_def)

text \<open>
  The method of the merged action is the one of the action definition, else the one of
  \<open>actionsDefaults[name]\<close>, else the name of the action. When the definition and the
  defaults give none, the method is the name, and it is the method of the request
  configuration \<open>performAction\<close> builds provided the resource configuration has no
  \<open>method\<close> property of its own.
\<close>

lemma action_method_default:
  "http_method (merged_action e name act) =
     (case http_method act of
        Some m \<Rightarrow> Some m
      | None \<Rightarrow>
          (case actionsDefaults e name of
             None \<Rightarrow> Some name
           | Some d \<Rightarrow> (case http_method d of Some m \<Rightarrow> Some m | None \<Rightarrow> Some name)))
   \<and> (http_method act = None
        \<and> (actionsDefaults e name = None
             \<or> (\<exists>d. actionsDefaults e name = Some d \<and> http_method d = None))
        \<and> \<not> hasOwnProperty rc ''method''
       \<longrightarrow> http_method (merged_action e name act) = Some name
           \<and> lookup_prop (base_config e rc (merged_action e name act) data) ''method'' = JStr name)"
proof -
  have m: "http_method (merged_action e name act) =
     (case http_method act of
        Some m \<Rightarrow> Some m
      | None \<Rightarrow>
          (case actionsDefaults e name of
             None \<Rightarrow> Some name
           | Some d \<Rightarrow> (case http_method d of Some m \<Rightarrow> Some m | None \<Rightarrow> Some name)))"
    by (simp add: merged_action_def extend_action_def override_def empty_action_def
        split: option.splits)
  have c: "\<not> hasOwnProperty rc ''method'' \<Longrightarrow>
      lookup_prop (base_config e rc a data) ''method'' = opt_str (http_method a)" for a
    by (simp add: base_config_method hasOwnProperty_iff lookup_extend_other)
      (simp add: lookup_prop_def)
  show ?thesis using m c [of "merged_action e name act"]
    by (auto simp: opt_str_def)
qed

lemma action_method_default_example:
  "http_method empty_action = None \<and> actionsDefaults sample_env ''get'' = None
   \<and> \<not> hasOwnProperty sample_config ''method''
   \<and> http_method (merged_action sample_env ''get'' empty_action) = Some ''get''
   \<and> lookup_prop (base_config sample_env sample_config
         (merged_action sample_env ''get'' empty_action) JNull) ''method'' = JStr ''get''"
  using action_method_default [of sample_env "''get''" empty_action sample_config JNull]
  by (simp add: empty_action_def sample_env_def sample_config_def hasOwnProperty_def)

text \<open>
  Claim C10. The claim holds for the merge, and for the request when the resource
  configuration has no \<open>method\<close> (lemma \<open>action_method_default\<close>). It fails when the
  configuration given to the factory has one: \<open>extend({method: action.method},
  resourceConfig)\<close> lets it replace the method of the action. For an action \<open>get\<close> with
  no method of its own and no defaults, the factory configuration \<open>{method: 'DELETE'}\<close>
  makes the request configuration carry \<open>DELETE\<close>, where the claim has a GET.
\<close>

theorem resource_config_method_overrides:
  "http_method empty_action = None \<and> actionsDefaults sample_env ''get'' = None
   \<and> ResourceFactory sample_env ''/user'' (Some [(''method'', JStr ''DELETE'')]) = Inr delete_config
   \<and> lookup_prop (base_config sample_env delete_config
         (merged_action sample_env ''get'' empty_action) JNull) ''method'' = JStr ''DELETE''"
  by (simp add: empty_action_def sample_env_def delete_config_def ResourceFactory_def verifyConfig_def
      hasOwnProperty_def extend_def setHashKey_def delete_prop_def base_config_def merged_action_def
      extend_action_def override_def
      hasBody_def body_method_def ci_match_def opt_str_def lookup_prop_def Let_def)

text \<open>
  Claim C5. An instance call \<open>$name\<close> on a resource whose \<open>$$unresolved\<close> is truthy
  throws the reentrancy error at once: the state is unchanged, so no request
  configuration was built, no promise attached and the transport not called.
\<close>

theorem instance_action_unresolved:
  assumes "\<not> flag (isArray act)"
    and "truthy (get_prop (heap s) (JRef this) ''$$unresolved'')"
  shows "Resource_instance_action e rc name act this arguments s = (s, Inl (UnresolvedRequest name))"
  using assms by (simp add: Resource_instance_action_def)

theorem instance_action_unresolved_witness:
  "\<not> flag (isArray get_action)
   \<and> truthy (get_prop
        (heap (fst (Resource_action sample_env sample_config ''get'' get_action [] sample_state)))
        (JRef 0) ''$$unresolved'')
   \<and> Resource_instance_action sample_env sample_config ''get'' get_action 0 []
        (fst (Resource_action sample_env sample_config ''get'' get_action [] sample_state))
       = (fst (Resource_action sample_env sample_config ''get'' get_action [] sample_state),
          Inl (UnresolvedRequest ''get''))"
proof -
  let ?s = "fst (Resource_action sample_env sample_config ''get'' get_action [] sample_state)"
  have a: "\<not> flag (isArray get_action)"
    by (simp add: get_action_def empty_action_def flag_def)
  have b: "truthy (get_prop (heap ?s) (JRef 0) ''$$unresolved'')"
    by (simp add: eval_defs read_obj_def)
  from instance_action_unresolved [OF a b] a b show ?thesis by blast
qed




lemma extractParams_error:
  "extractParams e h pspec args data = Inl err \<Longrightarrow>
   err = ExpectedTypeError ''Params for http request'' ''Object''"
  by (auto simp: extractParams_def Let_def split: if_splits jsval.splits)

lemma fold_replace_error:
  "fold (replace_step e) es acc = Inl err \<Longrightarrow> acc = Inl err \<or> err = TypeError"
proof (induction es arbitrary: acc)
  case Nil
  then show ?case by simp
next
  case (Cons kv es)
  then have "replace_step e kv acc = Inl err \<or> err = TypeError" by simp
  then show ?case
    by (auto simp: replace_step_def split: sum.splits jsval.splits)
qed

lemma replaceUrlParams_error:
  "replaceUrlParams e h url ps = Inl err \<Longrightarrow> err = TypeError"
  using fold_replace_error [of e "param_entries h ps" "Inr url" err]
  by (simp add: replaceUrlParams_def)

lemma performAction_error:
  assumes "performAction e rc act h data args = Inl err"
  shows "err = TypeError \<or> err = ExpectedTypeError ''Params for http request'' ''Object''"
  using assms
  by (auto simp: performAction_def Let_def split: sum.splits if_splits
      dest: extractParams_error replaceUrlParams_error)

lemma performAction_Inr:
  assumes "performAction e rc act h data args = Inr q"
  shows "q = (\<lambda>s. (s, Fulfilled JNull)) \<or> (\<exists>c. q = request_promise e act c (limit_of c))"
  using assms
  by (auto simp: performAction_def Let_def split: sum.splits if_splits)

lemma instance_action_Inr:
  assumes "Resource_instance_action e rc name act this arguments s = (s', Inr (v, p))"
  shows "\<exists>q data. call_unwrap (own_of (heap s) this) = Inr data
           \<and> performAction e rc act (heap s) data arguments = Inr q
           \<and> p = resource_promise act this q"
  using assms
  by (auto simp: Resource_instance_action_def Let_def split: if_splits sum.splits)

lemma call_unwrap_error: "call_unwrap this = Inl err \<Longrightarrow> err = TypeError"
  by (auto simp: call_unwrap_def unwrap_def this_hasOwnProperty_def Let_def
      split: if_splits jsval.splits sum.splits bool.splits)

lemma instance_action_not_reentrant:
  assumes "\<not> flag (isArray act)"
    and "get_prop (heap s) (JRef this) ''$$unresolved'' = JUndefined"
  shows "snd (Resource_instance_action e rc name act this arguments s) \<noteq> Inl (UnresolvedRequest name)"
proof (cases "call_unwrap (own_of (heap s) this)")
  case (Inl err)
  with call_unwrap_error [OF Inl] assms show ?thesis
    by (simp add: Resource_instance_action_def del: get_prop.simps)
next
  case (Inr data)
  show ?thesis
  proof (cases "performAction e rc act (heap s) data arguments")
    case (Inl err)
    with performAction_error [OF Inl] Inr assms show ?thesis
      by (auto simp: Resource_instance_action_def simp del: get_prop.simps)
  next
    case r: (Inr q)
    with Inr assms show ?thesis
      by (simp add: Resource_instance_action_def del: get_prop.simps)
  qed
qed

lemma then_p_rejected: "then_p f None (s, Rejected r) = (s, Rejected r)"
  by (simp add: then_p_def)

lemma request_promise_rejected:
  assumes "throughResponseInterceptors (instancedInterceptors e) limit
             (fst (call_http e (throughRequestInterceptors (instancedInterceptors e) limit
                (s, Fulfilled (JObj c))))) = (s3, Rejected r)"
  shows "request_promise e act c limit s = (s3, Rejected r)"
  using assms by (simp add: request_promise_def Let_def unwrap_response_def then_p_rejected)

text \<open>
  Claim C6. The promise of a static call of a singular action, and the one of an
  instance call, is \<open>performAction(...).finally(...).then(updateResource(...))\<close>, where
  the invoker's promise is either the skipped one or the request promise. The request
  promise has no rejection handler of its own: when the response phase (the transport,
  then the interceptors) rejects with \<open>r\<close>, it rejects with \<open>r\<close>. When the invoker's
  promise rejects with \<open>r\<close>, the promise of the call, for a resource as for an array of
  resources, rejects with the same \<open>r\<close>, after the \<open>finally\<close> callback has deleted
  \<open>$$unresolved\<close>; a later instance call on that resource does not throw the
  reentrancy error. On fulfilment the flag is deleted by the same callback, before the
  response is merged.
\<close>

theorem rejection_propagates:
  "(\<not> flag (isArray act) \<and> Resource_action e rc name act arguments s = (s', Inr (v, p))
      \<longrightarrow> (\<exists>q. v = JRef (length (heap s)) \<and> p = resource_promise act (length (heap s)) q
               \<and> (q = (\<lambda>s. (s, Fulfilled JNull))
                    \<or> (\<exists>c. q = request_promise e act c (limit_of c)))))
   \<and> (Resource_instance_action e rc name act this arguments s = (s', Inr (v, p))
      \<longrightarrow> (\<exists>q. p = resource_promise act this q
               \<and> (q = (\<lambda>s. (s, Fulfilled JNull))
                    \<or> (\<exists>c. q = request_promise e act c (limit_of c)))))
   \<and> (throughResponseInterceptors (instancedInterceptors e) limit
         (fst (call_http e (throughRequestInterceptors (instancedInterceptors e) limit
            (s1, Fulfilled (JObj c))))) = (s2, Rejected r)
      \<longrightarrow> request_promise e act c limit s1 = (s2, Rejected r))
   \<and> (q s1 = (s2, Rejected r)
      \<longrightarrow> resource_promise act w q s1 = (clear_unresolved w s2, Rejected r)
          \<and> resources_promise name act w q s1 = (clear_unresolved w s2, Rejected r)
          \<and> get_prop (heap (clear_unresolved w s2)) (JRef w) ''$$unresolved'' = JUndefined
          \<and> (\<not> flag (isArray act) \<longrightarrow>
                snd (Resource_instance_action e rc name act w args' (clear_unresolved w s2))
                  \<noteq> Inl (UnresolvedRequest name)))
   \<and> (q s1 = (s2, Fulfilled d)
      \<longrightarrow> resource_promise act w q s1 = updateResource act w d (clear_unresolved w s2)
          \<and> get_prop (heap (clear_unresolved w s2)) (JRef w) ''$$unresolved'' = JUndefined)"
proof (intro conjI impI)
  assume a: "\<not> flag (isArray act) \<and> Resource_action e rc name act arguments s = (s', Inr (v, p))"
  then have a1: "\<not> flag (isArray act)"
    and a2: "Resource_action e rc name act arguments s = (s', Inr (v, p))" by simp_all
  from singular_call_Inr [OF Resource_action_singular [OF a1 a2]] performAction_Inr
  show "\<exists>q. v = JRef (length (heap s)) \<and> p = resource_promise act (length (heap s)) q
          \<and> (q = (\<lambda>s. (s, Fulfilled JNull)) \<or> (\<exists>c. q = request_promise e act c (limit_of c)))"
    by blast
next
  assume "Resource_instance_action e rc name act this arguments s = (s', Inr (v, p))"
  from instance_action_Inr [OF this] performAction_Inr
  show "\<exists>q. p = resource_promise act this q
          \<and> (q = (\<lambda>s. (s, Fulfilled JNull)) \<or> (\<exists>c. q = request_promise e act c (limit_of c)))"
    by blast
next
  assume "throughResponseInterceptors (instancedInterceptors e) limit
         (fst (call_http e (throughRequestInterceptors (instancedInterceptors e) limit
            (s1, Fulfilled (JObj c))))) = (s2, Rejected r)"
  then show "request_promise e act c limit s1 = (s2, Rejected r)"
    by (rule request_promise_rejected)
next
  assume "q s1 = (s2, Rejected r)"
  then show "resource_promise act w q s1 = (clear_unresolved w s2, Rejected r)"
    by (rule resource_promise_rejected)
next
  assume "q s1 = (s2, Rejected r)"
  then show "resources_promise name act w q s1 = (clear_unresolved w s2, Rejected r)"
    by (simp add: resources_promise_def then_p_def finally_p_def)
next
  show "get_prop (heap (clear_unresolved w s2)) (JRef w) ''$$unresolved'' = JUndefined"
    by (rule cleared_flag)
next
  assume "\<not> flag (isArray act)"
  then show "snd (Resource_instance_action e rc name act w args' (clear_unresolved w s2))
                  \<noteq> Inl (UnresolvedRequest name)"
    using cleared_flag by (rule instance_action_not_reentrant)
next
  assume "q s1 = (s2, Fulfilled d)"
  then show "resource_promise act w q s1 = updateResource act w d (clear_unresolved w s2)"
    by (rule resource_promise_fulfilled)
next
  show "get_prop (heap (clear_unresolved w s2)) (JRef w) ''$$unresolved'' = JUndefined"
    by (rule cleared_flag)
qed

theorem rejection_propagates_witness:
  "\<not> flag (isArray get_action)
   \<and> (\<exists>s' v p q.
         Resource_action failing_env sample_config ''get'' get_action [] sample_state
           = (s', Inr (v, p))
         \<and> s' = pending_state \<and> v = JRef 0 \<and> p = resource_promise get_action 0 q)
   \<and> throughResponseInterceptors (instancedInterceptors failing_env) 0
        (fst (call_http failing_env
           (throughRequestInterceptors (instancedInterceptors failing_env) 0
              (pending_state, Fulfilled (JObj get_request)))))
        = (pending_state\<lparr>trace := [TransportCall (JObj get_request)]\<rparr>,
           Rejected (Reason (JStr ''offline'')))
   \<and> request_promise failing_env get_action get_request 0 pending_state
        = (pending_state\<lparr>trace := [TransportCall (JObj get_request)]\<rparr>,
           Rejected (Reason (JStr ''offline'')))
   \<and> settle (Resource_action failing_env sample_config ''get'' get_action [] sample_state)
        = (settled_state, Rejected (Reason (JStr ''offline'')))
   \<and> get_prop (heap settled_state) (JRef 0) ''$$unresolved'' = JUndefined
   \<and> snd (Resource_instance_action failing_env sample_config ''get'' get_action 0 []
         settled_state) \<noteq> Inl (UnresolvedRequest ''get'')
   \<and> (\<exists>s' v p q.
         Resource_instance_action failing_env sample_config ''get'' get_action 0 [] settled_state
           = (s', Inr (v, p))
         \<and> v = JPromise 1 \<and> p = resource_promise get_action 0 q)
   \<and> request_promise sample_env get_action get_request 0 pending_state
        = (\<lparr>heap = heap pending_state @
             [\<lparr>items = None,
               own = [(''data'', JObj [(''name'', JStr ''Ann'')]), (''status'', JNum 200)]\<rparr>],
            pcount = 1, trace = [TransportCall (JObj get_request)]\<rparr>,
           Fulfilled (JObj [(''name'', JStr ''Ann'')]))
   \<and> own_of (heap (fst (resource_promise get_action 0
         (request_promise sample_env get_action get_request 0) pending_state))) 0
        = [(''$promise'', JPromise 0), (''name'', JStr ''Ann'')]"
proof -
  let ?r = "Resource_action failing_env sample_config ''get'' get_action [] sample_state"
  let ?q = "request_promise failing_env get_action get_request 0"
  let ?s2 = "pending_state\<lparr>trace := [TransportCall (JObj get_request)]\<rparr>"
  let ?why = "Reason (JStr ''offline'')"
  let ?i = "Resource_instance_action failing_env sample_config ''get'' get_action 0 [] settled_state"
  let ?q' = "request_promise sample_env get_action get_request 0"
  let ?s3 = "\<lparr>heap = heap pending_state @
             [\<lparr>items = None,
               own = [(''data'', JObj [(''name'', JStr ''Ann'')]), (''status'', JNum 200)]\<rparr>],
            pcount = 1, trace = [TransportCall (JObj get_request)]\<rparr>"
  let ?d = "JObj [(''name'', JStr ''Ann'')]"
  have a: "\<not> flag (isArray get_action)"
    by (simp add: get_action_def empty_action_def flag_def)
  have "\<exists>s' v p. ?r = (s', Inr (v, p))" by (simp add: eval_defs)
  then obtain s' v p where r: "?r = (s', Inr (v, p))" by blast
  have r': "fst ?r = pending_state" by (simp add: eval_defs run_defs pending_state_def)
  from rejection_propagates [where act = get_action and e = failing_env and rc = sample_config
      and name = "''get''" and arguments = "[]" and s = sample_state and s' = s' and v = v
      and p = p, THEN conjunct1, THEN mp] a r
  obtain q where q: "v = JRef (length (heap sample_state))" "p = resource_promise get_action
      (length (heap sample_state)) q" by blast
  have w1: "\<exists>s' v p q. ?r = (s', Inr (v, p)) \<and> s' = pending_state \<and> v = JRef 0
      \<and> p = resource_promise get_action 0 q"
    using r r' q by (auto simp: sample_state_def)
  have ph: "throughResponseInterceptors (instancedInterceptors failing_env) 0
        (fst (call_http failing_env
           (throughRequestInterceptors (instancedInterceptors failing_env) 0
              (pending_state, Fulfilled (JObj get_request))))) = (?s2, Rejected ?why)"
    by (simp add: eval_defs run_defs pending_state_def get_request_def)
  from rejection_propagates [where e = failing_env and limit = 0 and ?s1.0 = pending_state
      and c = get_request and ?s2.0 = ?s2 and r = ?why and act = get_action,
      THEN conjunct2, THEN conjunct2, THEN conjunct1, THEN mp, OF ph]
  have c: "?q pending_state = (?s2, Rejected ?why)" .
  note t = rejection_propagates [where act = get_action and e = failing_env
      and rc = sample_config and name = "''get''" and q = ?q and ?s1.0 = pending_state
      and ?s2.0 = ?s2 and r = ?why and w = 0 and args' = "[]",
      THEN conjunct2, THEN conjunct2, THEN conjunct2, THEN conjunct1, THEN mp, OF c]
  have st: "clear_unresolved 0 ?s2 = settled_state"
    by (simp add: pending_state_def settled_state_def clear_unresolved_def update_own_def
        AbstractResource_def delete_prop_def)
  from t have d: "resource_promise get_action 0 ?q pending_state
      = (settled_state, Rejected ?why)" unfolding st by (rule conjunct1)
  from t have u: "get_prop (heap settled_state) (JRef 0) ''$$unresolved'' = JUndefined"
    unfolding st by (simp del: get_prop.simps)
  from t a have e: "snd ?i \<noteq> Inl (UnresolvedRequest ''get'')"
    unfolding st by (simp del: get_prop.simps)
  have f: "settle ?r = resource_promise get_action 0 ?q pending_state"
    by (simp add: eval_defs run_defs pending_state_def get_request_def)
  have "\<exists>s' v p. ?i = (s', Inr (v, p)) \<and> v = JPromise 1"
    by (simp add: Resource_instance_action_def settled_state_def call_unwrap_def unwrap_def
        this_hasOwnProperty_def hasOwnProperty_def
        eval_defs run_defs)
  then obtain s'' v' p' where i: "?i = (s'', Inr (v', p'))" "v' = JPromise 1" by blast
  from rejection_propagates [where act = get_action and e = failing_env and rc = sample_config
      and name = "''get''" and this = 0 and arguments = "[]" and s = settled_state
      and s' = s'' and v = v' and p = p', THEN conjunct2, THEN conjunct1, THEN mp, OF i(1)]
  obtain q' where "p' = resource_promise get_action 0 q'" by blast
  with i have w2: "\<exists>s' v p q. ?i = (s', Inr (v, p)) \<and> v = JPromise 1
      \<and> p = resource_promise get_action 0 q" by blast
  have g: "?q' pending_state = (?s3, Fulfilled ?d)"
    by (simp add: eval_defs run_defs pending_state_def get_request_def)
  from rejection_propagates [where q = ?q' and ?s1.0 = pending_state and ?s2.0 = ?s3
      and d = ?d and act = get_action and w = 0,
      THEN conjunct2, THEN conjunct2, THEN conjunct2, THEN conjunct2,
      THEN mp, OF g]
  have "resource_promise get_action 0 ?q' pending_state
      = updateResource get_action 0 ?d (clear_unresolved 0 ?s3)" by (rule conjunct1)
  then have h: "own_of (heap (fst (resource_promise get_action 0 ?q' pending_state))) 0
      = [(''$promise'', JPromise 0), (''name'', JStr ''Ann'')]"
    by (simp add: eval_defs run_defs pending_state_def)
  from f d have f': "settle ?r = (settled_state, Rejected ?why)" by simp
  show ?thesis
    apply (intro conjI)
    apply (rule a)
    apply (rule w1)
    apply (rule ph)
    apply (rule c)
    apply (rule f')
    apply (rule u)
    apply (rule e)
    apply (rule w2)
    apply (rule g)
    apply (rule h)
    done
qed

section \<open>The response of the invoker\<close>

lemma then_p_fulfilled_none: "then_p None g (s, Fulfilled v) = (s, Fulfilled v)"
  by (simp add: then_p_def)

text \<open>
  When the transport fulfils with the response object \<open>a\<close> and the response phase
  fulfils with \<open>v\<close>, the invoker fulfils with the \<open>data\<close> of \<open>a\<close> if \<open>v\<close> is that very
  object, and with \<open>v\<close> otherwise.
\<close>

lemma request_promise_unwraps:
  assumes "throughRequestInterceptors (instancedInterceptors e) limit (s, Fulfilled (JObj c))
             = (s1, Fulfilled c')"
    and "http e c' (heap s1) = (h2, Inr a)"
    and "throughResponseInterceptors (instancedInterceptors e) limit
           (s1\<lparr>heap := h2, trace := trace s1 @ [TransportCall c']\<rparr>, Fulfilled (JRef a))
             = (s3, Fulfilled v)"
    and "postProcess act = None"
  shows "request_promise e act c limit s =
           (s3, Fulfilled (if v = JRef a then get_prop (heap s3) (JRef a) ''data'' else v))"
  using assms
  by (simp add: request_promise_def call_http_def unwrap_response_def same_as_raw_def Let_def
      then_p_fulfilled_none del: get_prop.simps)

text \<open>
  Claim C4. The claim holds whenever the transport fulfilled (lemma
  \<open>request_promise_unwraps\<close>). It fails when the transport rejects and a
  \<open>responseError\<close> interceptor recovers with undefined: \<open>rawResponse\<close> was never
  assigned, \<open>rawResponse === response\<close> compares undefined with undefined, and reading
  \<open>response.data\<close> throws. With the limit of one that the factory accepts, the
  response phase fulfils with undefined, and the invoker rejects with a TypeError where
  the claim has it return undefined unchanged.
\<close>

theorem recovered_undefined_throws:
  "ResourceFactory swallowing_env ''/user'' (Some [(''interceptorLimit'', JNum 1)])
     = Inr swallowing_config
   \<and> throughResponseInterceptors (instancedInterceptors swallowing_env) 1
        (fst (call_http swallowing_env
           (throughRequestInterceptors (instancedInterceptors swallowing_env) 1
              (pending_state, Fulfilled (JObj swallowing_request)))))
     = (pending_state\<lparr>trace := [TransportCall (JObj swallowing_request), ResponseErrorHandler 0]\<rparr>,
        Fulfilled JUndefined)
   \<and> request_promise swallowing_env get_action swallowing_request 1 pending_state
     = (pending_state\<lparr>trace := [TransportCall (JObj swallowing_request), ResponseErrorHandler 0]\<rparr>,
        Rejected (Thrown TypeError))
   \<and> snd (settle (Resource_action swallowing_env swallowing_config ''get'' get_action []
        sample_state)) = Rejected (Thrown TypeError)"
  by (simp add: swallowing_env_def swallowing_interceptor_def swallowing_config_def
      swallowing_request_def pending_state_def ResourceFactory_def verifyConfig_def
      hasOwnProperty_def request_step_def response_step_def traced_def eval_defs run_defs)

section \<open>Collection actions with a body\<close>

lemma array_items_update_own: "array_items (update_own a f h) v = array_items h v"
  by (cases v) (auto simp: update_own_def read_obj_def nth_list_update)

lemma array_items_Resource_call:
  "array_items (heap (Resource_call w y s)) v = array_items (heap s) v"
  by (simp add: Resource_call_def array_items_update_own)

lemma array_items_clear_unresolved:
  "array_items (heap (clear_unresolved a s)) v = array_items (heap s) v"
  by (simp add: clear_unresolved_def array_items_update_own)

lemma forEach_modifyResource:
  assumes "array_items (heap s) (JRef ra) = Some (map JRef ws)"
    and "i + length ys \<le> length ws"
  shows "forEach_items (modifyResource ra) ys i s = (update_each (drop i ws) ys s, None)"
  using assms
proof (induction ys arbitrary: i s)
  case Nil
  then show ?case by (cases "drop i ws") simp_all
next
  case (Cons y ys)
  then have i: "i < length ws" by simp
  then have d: "drop i ws = ws ! i # drop (Suc i) ws" by (simp add: Cons_nth_drop_Suc)
  have m: "modifyResource ra y i s = (Resource_call (ws ! i) y s, None)"
    using Cons.prems(1) i by (simp add: modifyResource_def nth_arg_def del: array_items.simps)
  have "array_items (heap (Resource_call (ws ! i) y s)) (JRef ra) = Some (map JRef ws)"
    using Cons.prems(1) by (simp only: array_items_Resource_call)
  moreover have "Suc i + length ys \<le> length ws" using Cons.prems(2) by simp
  ultimately have "forEach_items (modifyResource ra) ys (Suc i) (Resource_call (ws ! i) y s)
      = (update_each (drop (Suc i) ws) ys (Resource_call (ws ! i) y s), None)"
    by (rule Cons.IH)
  then show ?case using m d by simp
qed

text \<open>
  A collection call with a body of three elements creates three resources, one per
  element in order, then the array that holds them, which it returns with the promise
  attached.
\<close>

lemma collection_call_three:
  assumes "flag (isArray act)" and "hasBody act"
    and "array_items (heap s) (nth_arg arguments 0) = Some [x0, x1, x2]"
    and "Resource_action e rc name act arguments s = (s', Inr (v, p))"
  shows "\<exists>q. v = JRef (length (heap s) + 3)
     \<and> p = resources_promise name act (length (heap s) + 3) q
     \<and> heap s' = heap s @
         [\<lparr>items = None, own = Resource (heap s) [] x0\<rparr>,
          \<lparr>items = None,
            own = Resource (heap s @ [\<lparr>items = None, own = Resource (heap s) [] x0\<rparr>]) [] x1\<rparr>,
          \<lparr>items = None,
            own = Resource (heap s @ [\<lparr>items = None, own = Resource (heap s) [] x0\<rparr>,
              \<lparr>items = None,
                own = Resource (heap s @ [\<lparr>items = None, own = Resource (heap s) [] x0\<rparr>]) [] x1\<rparr>])
              [] x2\<rparr>,
          \<lparr>items = Some [JRef (length (heap s)), JRef (length (heap s) + 1),
                          JRef (length (heap s) + 2)],
            own = AbstractResource [] (JPromise (pcount s))\<rparr>]"
proof -
  have n: "nth_arg arguments 0 \<noteq> JUndefined" "nth_arg arguments 0 \<noteq> JNull"
    using assms(3) by auto
  from assms n have c: "collection_call e rc name act [x0, x1, x2] (nth_arg arguments 0)
      (drop 1 arguments) s = (s', Inr (v, p))"
    by (simp add: Resource_action_def Let_def isUndefined_def del: array_items.simps)
  then show ?thesis
    by (auto simp: collection_call_def new_Resource_def alloc_def Let_def attach_promise_def
        update_own_def nth_append list_update_append numeral_3_eq_3 split: sum.splits)
qed

text \<open>
  On fulfilment of a collection call with a body, \<open>ignoreResponse\<close> unset: an array
  response no longer than the array of resources updates them by index, in order; a
  response that is defined, not null and not an array rejects with the array-type error.
\<close>

lemma resources_promise_body:
  assumes "hasBody act" and "\<not> flag (ignoreResponse act)"
    and "q s1 = (s2, Fulfilled d)"
    and "array_items (heap s2) (JRef ra) = Some (map JRef ws)"
  shows "(array_items (heap s2) d = Some ys \<and> length ys \<le> length ws \<longrightarrow>
            resources_promise name act ra q s1
              = (update_each ws ys (clear_unresolved ra s2), Fulfilled (JRef ra)))
       \<and> (d \<noteq> JUndefined \<and> d \<noteq> JNull \<and> array_items (heap s2) d = None \<longrightarrow>
            resources_promise name act ra q s1
              = (clear_unresolved ra s2, Rejected (Thrown (ExpectedArrayError name))))"
proof (intro conjI impI)
  let ?s = "clear_unresolved ra s2"
  have r: "resources_promise name act ra q s1
      = updateResourceArray name act ra (modifyResource ra) d ?s"
    using assms(1,3) by (simp add: resources_promise_def then_p_def finally_p_def)
  {
    assume a: "array_items (heap s2) d = Some ys \<and> length ys \<le> length ws"
    have "array_items (heap ?s) (JRef ra) = Some (map JRef ws)"
      using assms(4) by (simp only: array_items_clear_unresolved)
    moreover have "0 + length ys \<le> length ws" using a by simp
    ultimately have f: "forEach_items (modifyResource ra) ys 0 ?s = (update_each ws ys ?s, None)"
      using forEach_modifyResource [of ?s ra ws 0 ys] by simp
    have n: "d \<noteq> JUndefined" "d \<noteq> JNull" using a by auto
    show "resources_promise name act ra q s1 = (update_each ws ys ?s, Fulfilled (JRef ra))"
      unfolding r using assms(1,2) a n f
      by (simp add: updateResourceArray_def isDefined_def array_items_clear_unresolved
          del: array_items.simps)
  }
  {
    assume b: "d \<noteq> JUndefined \<and> d \<noteq> JNull \<and> array_items (heap s2) d = None"
    show "resources_promise name act ra q s1
        = (?s, Rejected (Thrown (ExpectedArrayError name)))"
      unfolding r using assms(1,2) b
      by (simp add: updateResourceArray_def isDefined_def array_items_clear_unresolved
          del: array_items.simps)
  }
qed

text \<open>
  Claim C1. The claim holds for the creation of the resources, for an array response of
  at most three elements and for a response that is not an array (lemmas
  \<open>collection_call_three\<close> and \<open>resources_promise_body\<close>). It fails for a longer
  response: at index 3 \<open>modifyResource\<close> calls the constructor on \<open>resources[3]\<close>, which
  is undefined, and the assignment to \<open>this.$value\<close> throws. A body \<open>[1, 2, 3]\<close> answered
  by \<open>[1, 2, 3, 4]\<close> rejects with a TypeError where the claim has it succeed.
\<close>

theorem longer_response_throws:
  "flag (isArray save_all) \<and> hasBody save_all \<and> \<not> flag (ignoreResponse save_all)
   \<and> returned (Resource_action list_env sample_config ''save'' save_all
        [JArr [JNum 1, JNum 2, JNum 3]] sample_state) = JRef 3
   \<and> array_items
        (heap (fst (Resource_action list_env sample_config ''save'' save_all
           [JArr [JNum 1, JNum 2, JNum 3]] sample_state))) (JRef 3)
       = Some [JRef 0, JRef 1, JRef 2]
   \<and> snd (settle (Resource_action list_env sample_config ''save'' save_all
        [JArr [JNum 1, JNum 2, JNum 3]] sample_state)) = Rejected (Thrown TypeError)"
  by (simp add: list_env_def list_http_def save_all_def modifyResource_def
      updateResourceArray_def resources_promise_def eval_defs run_defs)

section \<open>The request a call sends\<close>

lemma nth_arg_drop: "nth_arg (drop n xs) i = nth_arg xs (n + i)"
  by (auto simp: nth_arg_def)

lemma performAction_at_2:
  assumes "performAction e rc act h data args = Inr q"
    and "distinct (map fst ps)" and "(k, JStr ''@2'') \<in> set ps"
  shows "(flag (skipOnMissingParams act) \<and> q = (\<lambda>s. (s, Fulfilled JNull)))
         \<or> (\<exists>c. q = request_promise e act c (limit_of c)
               \<and> (queryParams act = Some (JObj ps) \<longrightarrow>
                    (\<exists>ex. lookup_prop c ''params'' = JObj ex
                       \<and> lookup_prop ex k = nth_arg args 2))
               \<and> (params act = Some (JObj ps) \<longrightarrow>
                    (\<exists>ex m u h'. replaceUrlParams e h' u (EMap ex m) = Inr (lookup_prop c ''url'')
                       \<and> lookup_prop ex k = nth_arg args 2)))"
proof -
  let ?c2 = "base_config e rc act data"
  from assms(1) obtain up url qp where
    up: "extractParams e h (opt_val (params act)) args data = Inr up"
    and url: "replaceUrlParams e h (lookup_prop ?c2 ''url'') up = Inr url"
    and qp: "extractParams e h (opt_val (queryParams act)) args data = Inr qp"
    by (auto simp: performAction_def Let_def split: sum.splits)
  let ?c3 = "set_prop ''params'' (params_value qp) (set_prop ''url'' url ?c2)"
  from assms(1) up url qp have
    q: "(flag (skipOnMissingParams act) \<and> q = (\<lambda>s. (s, Fulfilled JNull)))
        \<or> q = request_promise e act ?c3 (limit_of ?c3)"
    by (auto simp: performAction_def Let_def split: if_splits)
  have a: "\<exists>ex. lookup_prop ?c3 ''params'' = JObj ex \<and> lookup_prop ex k = nth_arg args 2"
    if "queryParams act = Some (JObj ps)"
  proof -
    from extractParams_args_2 [OF assms(2,3), of e h args data] that qp
    obtain ex m where "qp = EMap ex m" "lookup_prop ex k = nth_arg args 2"
      by (auto simp: opt_val_def)
    then show ?thesis by (simp add: lookup_set_prop)
  qed
  have b: "\<exists>ex m u h'. replaceUrlParams e h' u (EMap ex m) = Inr (lookup_prop ?c3 ''url'')
      \<and> lookup_prop ex k = nth_arg args 2"
    if "params act = Some (JObj ps)"
  proof -
    from extractParams_args_2 [OF assms(2,3), of e h args data] that up
    obtain ex m where "up = EMap ex m" "lookup_prop ex k = nth_arg args 2"
      by (auto simp: opt_val_def)
    with url show ?thesis by (auto simp: lookup_set_prop)
  qed
  from q a b show ?thesis by blast
qed

lemma collection_call_Inr:
  assumes "collection_call e rc name act xs data args s = (s', Inr (v, p))"
  shows "\<exists>q h' w. performAction e rc act h' data args = Inr q
           \<and> p = resources_promise name act w q"
  using assms
  by (auto simp: collection_call_def Let_def split: sum.splits)

lemma Resource_action_Inr:
  assumes "Resource_action e rc name act arguments s = (s', Inr (v, p))"
  shows "\<exists>q h' data w. performAction e rc act h' data (drop (if hasBody act then 1 else 0) arguments) = Inr q
           \<and> (p = resource_promise act w q \<or> p = resources_promise name act w q)"
proof (cases "flag (isArray act)")
  case False
  from singular_call_Inr [OF Resource_action_singular [OF False assms]]
  show ?thesis by blast
next
  case True
  with assms obtain xs data where
    "collection_call e rc name act xs data (drop (if hasBody act then 1 else 0) arguments) s
       = (s', Inr (v, p))"
    by (auto simp: Resource_action_def Let_def split: if_splits option.splits)
  from collection_call_Inr [OF this] show ?thesis by blast
qed

lemma transport_requests_append:
  "transport_requests (s\<lparr>trace := trace s @ [ev]\<rparr>)
     = transport_requests s @ (case ev of TransportCall c \<Rightarrow> [c] | _ \<Rightarrow> [])"
  by (simp add: transport_requests_def List.map_filter_def split: event.splits)

lemma request_promise_transport:
  "transport_requests (fst (request_promise e act c 0 s1)) = transport_requests s1 @ [JObj c]"
  by (auto simp: request_promise_def throughRequestInterceptors_def
      throughResponseInterceptors_def call_http_def unwrap_response_def then_p_def traced_def
      transport_requests_def List.map_filter_def Let_def
      split: sum.splits outcome.splits option.splits prod.splits)

text \<open>
  Claim C7, as amended. Let an entry of a \<open>params\<close> or \<open>queryParams\<close> object be the
  mapper string \<open>"@2"\<close>. Whatever the body holds, a call that returns either skips the
  request or hands the invoker a request configuration in which the value of that entry
  is one argument of the call. For an instance call it is call argument 2. For a static
  call \<open>Resource[name]\<close> it is call argument 2 when the action has no body, and call
  argument 3 when it has one: the first argument is then the body and the extractor counts
  from the one after it. A query parameter is the entry of \<open>params\<close> in the configuration;
  a path parameter is replaced into its \<open>url\<close>. With an interceptor limit of 0 the
  transport is called with that very configuration.
\<close>

theorem mapper_at_2_of_call:
  assumes "distinct (map fst ps)" and "(k, JStr ''@2'') \<in> set ps"
  shows "(Resource_action e rc name act arguments s = (s', Inr (v, p)) \<longrightarrow>
           (\<exists>q w. (p = resource_promise act w q \<or> p = resources_promise name act w q)
              \<and> ((flag (skipOnMissingParams act) \<and> q = (\<lambda>s. (s, Fulfilled JNull)))
                 \<or> (\<exists>c. q = request_promise e act c (limit_of c)
                       \<and> (queryParams act = Some (JObj ps) \<longrightarrow>
                            (\<exists>ex. lookup_prop c ''params'' = JObj ex
                               \<and> lookup_prop ex k
                                   = nth_arg arguments (if hasBody act then 3 else 2)))
                       \<and> (params act = Some (JObj ps) \<longrightarrow>
                            (\<exists>ex m u h'. replaceUrlParams e h' u (EMap ex m)
                                            = Inr (lookup_prop c ''url'')
                               \<and> lookup_prop ex k
                                   = nth_arg arguments (if hasBody act then 3 else 2)))))))
       \<and> (Resource_instance_action e rc name act this arguments s = (s', Inr (v, p)) \<longrightarrow>
           (\<exists>q. p = resource_promise act this q
              \<and> ((flag (skipOnMissingParams act) \<and> q = (\<lambda>s. (s, Fulfilled JNull)))
                 \<or> (\<exists>c. q = request_promise e act c (limit_of c)
                       \<and> (queryParams act = Some (JObj ps) \<longrightarrow>
                            (\<exists>ex. lookup_prop c ''params'' = JObj ex
                               \<and> lookup_prop ex k = nth_arg arguments 2))
                       \<and> (params act = Some (JObj ps) \<longrightarrow>
                            (\<exists>ex m u h'. replaceUrlParams e h' u (EMap ex m)
                                            = Inr (lookup_prop c ''url'')
                               \<and> lookup_prop ex k = nth_arg arguments 2))))))
       \<and> transport_requests (fst (request_promise e act cfg 0 s1))
            = transport_requests s1 @ [JObj cfg]"
proof (intro conjI impI)
  assume r: "Resource_action e rc name act arguments s = (s', Inr (v, p))"
  from Resource_action_Inr [OF r] obtain q h' data w where
    q: "performAction e rc act h' data (drop (if hasBody act then 1 else 0) arguments) = Inr q"
    and p: "p = resource_promise act w q \<or> p = resources_promise name act w q"
    by blast
  have n: "nth_arg (drop (if hasBody act then 1 else 0) arguments) 2
      = nth_arg arguments (if hasBody act then 3 else 2)"
    by (simp add: nth_arg_drop numeral_3_eq_3 numeral_2_eq_2)
  from performAction_at_2 [OF q assms] p
  show "\<exists>q w. (p = resource_promise act w q \<or> p = resources_promise name act w q)
      \<and> ((flag (skipOnMissingParams act) \<and> q = (\<lambda>s. (s, Fulfilled JNull)))
         \<or> (\<exists>c. q = request_promise e act c (limit_of c)
               \<and> (queryParams act = Some (JObj ps) \<longrightarrow>
                    (\<exists>ex. lookup_prop c ''params'' = JObj ex
                       \<and> lookup_prop ex k = nth_arg arguments (if hasBody act then 3 else 2)))
               \<and> (params act = Some (JObj ps) \<longrightarrow>
                    (\<exists>ex m u h'. replaceUrlParams e h' u (EMap ex m)
                                    = Inr (lookup_prop c ''url'')
                       \<and> lookup_prop ex k
                           = nth_arg arguments (if hasBody act then 3 else 2)))))"
    unfolding n by blast
next
  assume i: "Resource_instance_action e rc name act this arguments s = (s', Inr (v, p))"
  from instance_action_Inr [OF i] obtain q data where
    q: "performAction e rc act (heap s) data arguments = Inr q"
    and p: "p = resource_promise act this q"
    by blast
  from performAction_at_2 [OF q assms] p
  show "\<exists>q. p = resource_promise act this q
      \<and> ((flag (skipOnMissingParams act) \<and> q = (\<lambda>s. (s, Fulfilled JNull)))
         \<or> (\<exists>c. q = request_promise e act c (limit_of c)
               \<and> (queryParams act = Some (JObj ps) \<longrightarrow>
                    (\<exists>ex. lookup_prop c ''params'' = JObj ex
                       \<and> lookup_prop ex k = nth_arg arguments 2))
               \<and> (params act = Some (JObj ps) \<longrightarrow>
                    (\<exists>ex m u h'. replaceUrlParams e h' u (EMap ex m)
                                    = Inr (lookup_prop c ''url'')
                       \<and> lookup_prop ex k = nth_arg arguments 2))))"
    by blast
next
  show "transport_requests (fst (request_promise e act cfg 0 s1))
      = transport_requests s1 @ [JObj cfg]"
    by (rule request_promise_transport)
qed

theorem mapper_at_2_of_call_witness:
  "distinct (map fst [(''id'', JStr ''@2'')])
   \<and> (''id'', JStr ''@2'') \<in> set [(''id'', JStr ''@2'')]
   \<and> queryParams save_at_2 = Some (JObj [(''id'', JStr ''@2'')])
   \<and> params save_at_2 = Some (JObj [(''id'', JStr ''@2'')])
   \<and> hasBody save_at_2
   \<and> (\<exists>s' v p q w c ex ex' m u h'.
         Resource_action sample_env sample_config ''save'' save_at_2 save_arguments sample_state
           = (s', Inr (v, p))
         \<and> (p = resource_promise save_at_2 w q \<or> p = resources_promise ''save'' save_at_2 w q)
         \<and> q = request_promise sample_env save_at_2 c (limit_of c)
         \<and> lookup_prop c ''params'' = JObj ex \<and> lookup_prop ex ''id'' = JNum 7
         \<and> replaceUrlParams sample_env h' u (EMap ex' m) = Inr (lookup_prop c ''url'')
         \<and> lookup_prop ex' ''id'' = JNum 7)
   \<and> (\<exists>s' v p q c ex ex' m u h'.
         Resource_instance_action sample_env sample_config ''save'' save_at_2 0 save_arguments
           settled_state = (s', Inr (v, p))
         \<and> p = resource_promise save_at_2 0 q
         \<and> q = request_promise sample_env save_at_2 c (limit_of c)
         \<and> lookup_prop c ''params'' = JObj ex \<and> lookup_prop ex ''id'' = JStr ''v''
         \<and> replaceUrlParams sample_env h' u (EMap ex' m) = Inr (lookup_prop c ''url'')
         \<and> lookup_prop ex' ''id'' = JStr ''v'')
   \<and> transport_requests (fst (request_promise sample_env save_at_2 get_request 0 settled_state))
        = [JObj get_request, JObj get_request]"
proof -
  let ?ps = "[(''id'', JStr ''@2'')]"
  let ?r = "Resource_action sample_env sample_config ''save'' save_at_2 save_arguments sample_state"
  let ?i = "Resource_instance_action sample_env sample_config ''save'' save_at_2 0 save_arguments
              settled_state"
  have d: "distinct (map fst ?ps)" by simp
  have m: "(''id'', JStr ''@2'') \<in> set ?ps" by simp
  have qp: "queryParams save_at_2 = Some (JObj ?ps)" by (simp add: save_at_2_def empty_action_def)
  have pp: "params save_at_2 = Some (JObj ?ps)" by (simp add: save_at_2_def empty_action_def)
  have b: "hasBody save_at_2"
    by (simp add: save_at_2_def empty_action_def hasBody_def body_method_def ci_match_def)
  have ns: "\<not> flag (skipOnMissingParams save_at_2)"
    by (simp add: save_at_2_def empty_action_def flag_def)
  have a3: "nth_arg save_arguments 3 = JNum 7" by (simp add: nth_arg_def save_arguments_def)
  have a2: "nth_arg save_arguments 2 = JStr ''v''" by (simp add: nth_arg_def save_arguments_def)
  note t = mapper_at_2_of_call [OF d m, where e = sample_env and rc = sample_config
      and name = "''save''" and act = save_at_2 and arguments = save_arguments]
  have "\<exists>s' v p. ?r = (s', Inr (v, p))"
    by (simp add: save_at_2_def save_arguments_def eval_defs extract_step_def extract_entry_def
        extract_at_2 hasOwnProperty_def)
  then obtain s' v p where r: "?r = (s', Inr (v, p))" by blast
  from t [where s = sample_state and s' = s' and v = v and p = p, THEN conjunct1, THEN mp, OF r]
    ns qp pp b a3
  have w1: "\<exists>s' v p q w c ex ex' m u h'. ?r = (s', Inr (v, p))
      \<and> (p = resource_promise save_at_2 w q \<or> p = resources_promise ''save'' save_at_2 w q)
      \<and> q = request_promise sample_env save_at_2 c (limit_of c)
      \<and> lookup_prop c ''params'' = JObj ex \<and> lookup_prop ex ''id'' = JNum 7
      \<and> replaceUrlParams sample_env h' u (EMap ex' m) = Inr (lookup_prop c ''url'')
      \<and> lookup_prop ex' ''id'' = JNum 7"
    using r by (elim exE conjE disjE) (simp; blast)+
  have "\<exists>s' v p. ?i = (s', Inr (v, p))"
    by (simp add: Resource_instance_action_def settled_state_def call_unwrap_def unwrap_def
        this_hasOwnProperty_def hasOwnProperty_def save_at_2_def save_arguments_def
        eval_defs run_defs extract_step_def extract_entry_def extract_at_2)
  then obtain s'' v' p' where i: "?i = (s'', Inr (v', p'))" by blast
  from t [where s = settled_state and s' = s'' and v = v' and p = p' and this = 0,
      THEN conjunct2, THEN conjunct1, THEN mp, OF i] ns qp pp a2
  have w2: "\<exists>s' v p q c ex ex' m u h'. ?i = (s', Inr (v, p))
      \<and> p = resource_promise save_at_2 0 q
      \<and> q = request_promise sample_env save_at_2 c (limit_of c)
      \<and> lookup_prop c ''params'' = JObj ex \<and> lookup_prop ex ''id'' = JStr ''v''
      \<and> replaceUrlParams sample_env h' u (EMap ex' m) = Inr (lookup_prop c ''url'')
      \<and> lookup_prop ex' ''id'' = JStr ''v''"
    using i by (elim exE conjE disjE) (simp; blast)+
  from t [where cfg = get_request and ?s1.0 = settled_state, THEN conjunct2, THEN conjunct2]
  have w3: "transport_requests (fst (request_promise sample_env save_at_2 get_request 0 settled_state))
      = [JObj get_request, JObj get_request]"
    by (simp add: transport_requests_def settled_state_def List.map_filter_def)
  show ?thesis
    apply (intro conjI)
    apply (rule d)
    apply (rule m)
    apply (rule qp)
    apply (rule pp)
    apply (rule b)
    apply (rule w1)
    apply (rule w2)
    apply (rule w3)
    done
qed

text \<open>
  The claim as it was stated fails for a static call of an action with a body: the value
  the transport gets for \<open>"@2"\<close> is call argument 3, not call argument 2.
\<close>

theorem body_call_at_2_counterexample:
  "hasBody save_at_2
   \<and> nth_arg save_arguments 2 = JStr ''v''
   \<and> nth_arg save_arguments 3 = JNum 7
   \<and> transport_requests (fst (settle
         (Resource_action sample_env sample_config ''save'' save_at_2 save_arguments sample_state)))
        = [JObj [(''method'', JStr ''POST''), (''url'', JStr ''/api/user''),
                 (''interceptorLimit'', JNum 0), (''data'', JObj [(''n'', JNum 1)]),
                 (''params'', JObj [(''id'', JNum 7)])]]"
  by (simp add: save_at_2_def save_arguments_def eval_defs run_defs extract_step_def
      extract_entry_def extract_at_2 hasOwnProperty_def transport_requests_def
      List.map_filter_def)







end
